theory Spec2Isabelle
  imports Main
begin

section \<open>JavaScript values\<close>

text \<open>
  The values that flow through the tool-call code: tool arguments, tool results, thrown
  values, declarations and result envelopes. \<open>Num\<close> holds an integral number, \<open>NaN\<close> the
  not-a-number value (fractions are not needed), \<open>Err name message\<close> an instance of
  \<open>Error\<close> or of a subclass such as \<open>TypeError\<close>. \<open>Obj ps\<close> is the plain object obtained
  by defining the properties \<open>ps\<close> from left to right, as an object literal does: a later
  binding of a key replaces an earlier one, so spreading an object into a literal is
  list concatenation.
\<close>

datatype jsval =
    Undefined
  | Null
  | Bool bool
  | Num int
  | NaN
  | Str string
  | Arr "jsval list"
  | Obj "(string \<times> jsval) list"
  | Err string string

text \<open>Truthiness, as tested by \<open>if (v)\<close>, \<open>!v\<close> and \<open>v || w\<close>.\<close>

fun truthy :: "jsval \<Rightarrow> bool" where
  "truthy Undefined = False"
| "truthy Null = False"
| "truthy (Bool b) = b"
| "truthy (Num n) = (n \<noteq> 0)"
| "truthy NaN = False"
| "truthy (Str s) = (s \<noteq> [])"
| "truthy (Arr xs) = True"
| "truthy (Obj ps) = True"
| "truthy (Err n m) = True"

text \<open>\<open>a || b\<close> where both operands are already evaluated.\<close>

definition js_or :: "jsval \<Rightarrow> jsval \<Rightarrow> jsval" where
  "js_or a b = (if truthy a then a else b)"

definition nullish :: "jsval \<Rightarrow> bool" where
  "nullish v = (v = Undefined \<or> v = Null)"

text \<open>
  The message of the \<open>TypeError\<close> raised when a property of \<open>undefined\<close> or \<open>null\<close> is
  read. The wording is that of V8; nothing below depends on it.
\<close>

definition typeErrorText :: "jsval \<Rightarrow> string \<Rightarrow> string" where
  "typeErrorText v k =
     ''Cannot read properties of '' @ (if v = Null then ''null'' else ''undefined'') @
     '' (reading '' @ [CHR 0x27] @ k @ [CHR 0x27] @ '')''"

text \<open>
  The value of property \<open>k\<close> of the plain object with properties \<open>ps\<close>: the last
  binding of \<open>k\<close>, and \<open>undefined\<close> when there is none.
\<close>

definition js_own :: "(string \<times> jsval) list \<Rightarrow> string \<Rightarrow> jsval" where
  "js_own ps k = (case map_of (rev ps) k of None \<Rightarrow> Undefined | Some v \<Rightarrow> v)"

text \<open>
  The property read \<open>v.k\<close> for the property names the source reads (\<open>output\<close>,
  \<open>message\<close>, \<open>function\<close>, \<open>name\<close> and the like): it throws (\<open>Inl\<close>) on \<open>undefined\<close> and
  \<open>null\<close>, and yields \<open>undefined\<close> for a property that is absent. Inherited methods and
  the indices of strings and arrays are not modelled.
\<close>

fun js_get :: "jsval \<Rightarrow> string \<Rightarrow> jsval + jsval" where
  "js_get Undefined k = Inl (Err ''TypeError'' (typeErrorText Undefined k))"
| "js_get Null k = Inl (Err ''TypeError'' (typeErrorText Null k))"
| "js_get (Obj ps) k = Inr (js_own ps k)"
| "js_get (Err n m) k =
     Inr (if k = ''message'' then Str m else if k = ''name'' then Str n else Undefined)"
| "js_get (Str s) k = Inr (if k = ''length'' then Num (int (length s)) else Undefined)"
| "js_get (Arr xs) k = Inr (if k = ''length'' then Num (int (length xs)) else Undefined)"
| "js_get (Bool b) k = Inr Undefined"
| "js_get (Num n) k = Inr Undefined"
| "js_get NaN k = Inr Undefined"

text \<open>The own property names of a value, in first-definition order.\<close>

fun js_keys :: "jsval \<Rightarrow> string list" where
  "js_keys (Obj ps) = rev (remdups (rev (map fst ps)))"
| "js_keys v = []"

text \<open>Decimal rendering of a natural number.\<close>

fun digits :: "nat \<Rightarrow> string" where
  "digits n =
     (if n < 10 then [char_of (48 + n)] else digits (n div 10) @ [char_of (48 + n mod 10)])"

text \<open>
  \<open>String(v)\<close>. An array is joined with commas, \<open>undefined\<close> and \<open>null\<close> elements rendered
  empty. A plain object renders through the inherited \<open>toString\<close>, unless it has an own
  property of that name: every value here being data, that property is not callable and
  the conversion throws.
\<close>

fun js_String :: "jsval \<Rightarrow> jsval + string"
  and js_join :: "jsval list \<Rightarrow> jsval + string" where
  "js_String Undefined = Inr ''undefined''"
| "js_String Null = Inr ''null''"
| "js_String (Bool b) = Inr (if b then ''true'' else ''false'')"
| "js_String (Num n) = Inr (if n < 0 then ''-'' @ digits (nat (- n)) else digits (nat n))"
| "js_String NaN = Inr ''NaN''"
| "js_String (Str s) = Inr s"
| "js_String (Arr xs) = js_join xs"
| "js_String (Obj ps) =
     (if ''toString'' \<in> set (map fst ps)
      then Inl (Err ''TypeError'' ''Cannot convert object to primitive value'')
      else Inr ''[object Object]'')"
| "js_String (Err n m) = Inr (if m = [] then n else if n = [] then m else n @ '': '' @ m)"
| "js_join [] = Inr []"
| "js_join (x # xs) =
     (case (if x = Undefined \<or> x = Null then Inr [] else js_String x) of
        Inl e \<Rightarrow> Inl e
      | Inr s \<Rightarrow>
          (if xs = [] then Inr s
           else (case js_join xs of Inl e \<Rightarrow> Inl e | Inr t \<Rightarrow> Inr (s @ '','' @ t))))"

section \<open>The tool-call broker (js/tools/tool-manager.js)\<close>

text \<open>
  A local tool. \<open>getDeclaration\<close> is \<open>None\<close> when the instance has no such accessor, and
  otherwise what calling it does: return a declaration (\<open>Inr\<close>) or throw (\<open>Inl\<close>).
  \<open>execute\<close> gives, for the arguments, the value the awaited call resolves to (\<open>Inr\<close>) or
  the value it throws or rejects with (\<open>Inl\<close>).
\<close>

record tool =
  getDeclaration :: "(jsval + jsval) option"
  execute :: "jsval \<Rightarrow> jsval + jsval"

text \<open>
  The two \<open>Map\<close>s of the manager, in insertion order: \<open>tools\<close> by registered name,
  \<open>composioTools\<close> by app name (each value the tool array of that app).
\<close>

record toolManager =
  tools :: "(string \<times> tool) list"
  composioTools :: "(string \<times> jsval list) list"

definition newToolManager :: toolManager where
  "newToolManager = \<lparr>tools = [], composioTools = []\<rparr>"

definition registerTool :: "string \<Rightarrow> tool \<Rightarrow> toolManager \<Rightarrow> toolManager" where
  "registerTool name toolInstance m =
     (if name \<in> set (map fst (tools m)) then m
      else m\<lparr>tools := tools m @ [(name, toolInstance)]\<rparr>)"

text \<open>The first loop of \<open>getToolDeclarations\<close>, over the local tools.\<close>

fun pushLocal :: "(string \<times> tool) list \<Rightarrow> jsval list \<Rightarrow> jsval + jsval list" where
  "pushLocal [] allDeclarations = Inr allDeclarations"
| "pushLocal ((name, t) # rest) allDeclarations =
     (case getDeclaration t of
        None \<Rightarrow> pushLocal rest allDeclarations
      | Some (Inl e) \<Rightarrow> Inl e
      | Some (Inr d) \<Rightarrow> pushLocal rest (allDeclarations @ [d]))"

text \<open>The second loop: \<open>tool.function\<close> of every tool of every app.\<close>

fun pushFunctions :: "jsval list \<Rightarrow> jsval list \<Rightarrow> jsval + jsval list" where
  "pushFunctions [] allDeclarations = Inr allDeclarations"
| "pushFunctions (t # rest) allDeclarations =
     (case js_get t ''function'' of
        Inl e \<Rightarrow> Inl e
      | Inr f \<Rightarrow> pushFunctions rest (allDeclarations @ [f]))"

fun pushComposio :: "(string \<times> jsval list) list \<Rightarrow> jsval list \<Rightarrow> jsval + jsval list" where
  "pushComposio [] allDeclarations = Inr allDeclarations"
| "pushComposio ((appName, ts) # rest) allDeclarations =
     (case pushFunctions ts allDeclarations of
        Inl e \<Rightarrow> Inl e
      | Inr ds \<Rightarrow> pushComposio rest ds)"

definition getToolDeclarations :: "toolManager \<Rightarrow> jsval + jsval list" where
  "getToolDeclarations m =
     (case pushLocal (tools m) [] of
        Inl e \<Rightarrow> Inl e
      | Inr ds \<Rightarrow> pushComposio (composioTools m) ds)"

text \<open>
  \<open>name.match(/^([a-z]+)_/)\<close>: the captured group, when the name starts with one or more
  lowercase ASCII letters followed by an underscore. The group is greedy and only the
  longest run of letters can be followed by a character that is not a letter.
\<close>

definition isLower :: "char \<Rightarrow> bool" where
  "isLower c = (97 \<le> (of_char c :: nat) \<and> (of_char c :: nat) \<le> 122)"

definition appNameMatch :: "string \<Rightarrow> string option" where
  "appNameMatch name =
     (let letters = takeWhile isLower name; rest = dropWhile isLower name
      in if letters \<noteq> [] \<and> take 1 rest = ''_'' then Some letters else None)"

record functionCall =
  fc_name :: string
  fc_args :: jsval
  fc_id :: jsval

text \<open>
  Both \<open>catch\<close> blocks of \<open>handleToolCall\<close>: the envelope carries \<open>error.message\<close>.
  Reading it throws when the caught value is \<open>undefined\<close> or \<open>null\<close>, and that exception
  leaves the function.
\<close>

definition catchError :: "jsval \<Rightarrow> jsval \<Rightarrow> jsval + jsval" where
  "catchError id' error =
     (case js_get error ''message'' of
        Inl thrown \<Rightarrow> Inl thrown
      | Inr message \<Rightarrow> Inr (Obj [(''output'', Null), (''id'', id'), (''error'', message)]))"

text \<open>
  \<open>handleToolCall\<close>. \<open>isConnected\<close> and \<open>executeTool\<close> are those of the connector module
  (\<open>composio-api.js\<close>); \<open>executeTool\<close> gives the settled outcome of the awaited call. The
  result is \<open>Inr\<close> the returned envelope, or \<open>Inl\<close> the exception the returned promise
  rejects with.
\<close>

definition handleToolCall ::
  "(string \<Rightarrow> bool) \<Rightarrow> (string \<Rightarrow> jsval \<Rightarrow> jsval + jsval) \<Rightarrow> toolManager \<Rightarrow> functionCall
     \<Rightarrow> jsval + jsval" where
  "handleToolCall isConnected executeTool m functionCall =
     (let name = fc_name functionCall; args = fc_args functionCall; id' = fc_id functionCall;
          appNameMatch' = appNameMatch name
      in if (case appNameMatch' of None \<Rightarrow> False | Some appName \<Rightarrow> isConnected appName)
         then (case executeTool name args of
                 Inr result \<Rightarrow>
                   (case js_get result ''output'' of
                      Inl thrown \<Rightarrow> catchError id' thrown
                    | Inr output \<Rightarrow>
                        Inr (Obj [(''output'', js_or output result), (''id'', id'),
                                  (''error'', Null)]))
               | Inl error \<Rightarrow> catchError id' error)
         else (case map_of (tools m) name of
                 None \<Rightarrow>
                   Inr (Obj [(''output'', Null), (''id'', id'),
                             (''error'', Str (''Tool not found: '' @ name))])
               | Some tool \<Rightarrow>
                   (case execute tool args of
                      Inr result \<Rightarrow>
                        Inr (Obj [(''output'', result), (''id'', id'), (''error'', Null)])
                    | Inl error \<Rightarrow> catchError id' error)))"

text \<open>An awaited call that rejects with \<open>undefined\<close> or \<open>null\<close>.\<close>

definition rejectsNullish :: "jsval + jsval \<Rightarrow> bool" where
  "rejectsNullish outcome = (case outcome of Inl e \<Rightarrow> nullish e | Inr v \<Rightarrow> False)"

text \<open>
  \<open>a ?? b\<close>, the operator the specification uses for the connector result. The source
  does not use it in \<open>handleToolCall\<close>; it is here to be compared with \<open>js_or\<close>.
\<close>

definition js_coalesce :: "jsval \<Rightarrow> jsval \<Rightarrow> jsval" where
  "js_coalesce a b = (if nullish a then b else a)"

text \<open>A sequence of \<open>registerTool\<close> calls, in order.\<close>

definition registerAll :: "(string \<times> tool) list \<Rightarrow> toolManager \<Rightarrow> toolManager" where
  "registerAll regs m = fold (\<lambda>(name, toolInstance). registerTool name toolInstance) regs m"

text \<open>
  What a registered tool contributes to the declaration list: the declaration its
  accessor returns, if it has an accessor.
\<close>

definition declared :: "string \<times> tool \<Rightarrow> jsval option" where
  "declared entry = (case getDeclaration (snd entry) of Some (Inr d) \<Rightarrow> Some d | _ \<Rightarrow> None)"

text \<open>A declaration whose \<open>name\<close> is \<open>nm\<close>, and a registered tool that declares that name.\<close>

definition named :: "string \<Rightarrow> jsval \<Rightarrow> bool" where
  "named nm d = (js_get d ''name'' = Inr (Str nm))"

definition declares :: "string \<Rightarrow> string \<times> tool \<Rightarrow> bool" where
  "declares nm entry = (case declared entry of None \<Rightarrow> False | Some d \<Rightarrow> named nm d)"

text \<open>A registered tool whose declaration accessor throws.\<close>

definition accessorThrows :: "string \<times> tool \<Rightarrow> bool" where
  "accessorThrows entry =
     (case getDeclaration (snd entry) of Some (Inl e) \<Rightarrow> True | _ \<Rightarrow> False)"

section \<open>The connector tool source (js/integrations/tool-manager.js)\<close>

text \<open>
  The state of the tool source: its \<open>initialized\<close> flag and the entries stored in its
  \<open>toolCache\<close> object, by key. \<open>backendCalls\<close> is not a field of the class: it logs the
  calls of \<open>composioIntegration.getTools\<close> made so far, oldest first, so that the number
  of backend calls can be stated.
\<close>

record toolSource =
  initialized :: bool
  toolCache :: "string \<rightharpoonup> jsval"
  backendCalls :: "(string \<times> string list \<times> string list) list"


text \<open>
  \<open>initialize\<close>. \<open>integrationReady\<close> says that the connector integration is initialized
  already or that its own \<open>initialize\<close> resolves; otherwise that call throws, which is
  caught, and the flag is left as it is.
\<close>

definition initialize :: "bool \<Rightarrow> toolSource \<Rightarrow> toolSource" where
  "initialize integrationReady s = (if integrationReady then s\<lparr>initialized := True\<rparr> else s)"

text \<open>\<open>xs.join(',')\<close> for an array of strings.\<close>

fun joinComma :: "string list \<Rightarrow> string" where
  "joinComma [] = []"
| "joinComma [x] = x"
| "joinComma (x # y # ys) = x @ '','' @ joinComma (y # ys)"

definition cacheKey :: "string \<Rightarrow> string list \<Rightarrow> string list \<Rightarrow> string" where
  "cacheKey appName actions tags = appName @ ''_'' @ joinComma actions @ ''_'' @ joinComma tags"

text \<open>
  \<open>toolCache\<close> is a plain object (\<open>{}\<close>), so a read of a key nothing is stored under
  reaches \<open>Object.prototype\<close>. These are its function members, each with its \<open>length\<close>.
\<close>

definition objectPrototypeMethods :: "(string \<times> nat) list" where
  "objectPrototypeMethods =
     [(''constructor'', 1), (''__defineGetter__'', 2), (''__defineSetter__'', 2),
      (''hasOwnProperty'', 1), (''__lookupGetter__'', 1), (''__lookupSetter__'', 1),
      (''isPrototypeOf'', 1), (''propertyIsEnumerable'', 1), (''toString'', 0),
      (''valueOf'', 0), (''toLocaleString'', 0)]"

text \<open>
  The member a plain object inherits under name \<open>k\<close>, if any. \<open>__proto__\<close> reads as
  \<open>Object.prototype\<close> itself, an object without data properties; a function member is
  represented by its data properties \<open>length\<close> and \<open>name\<close> (\<open>constructor\<close> is the function
  \<open>Object\<close>). All of them are truthy.
\<close>

definition inheritedMember :: "string \<Rightarrow> jsval option" where
  "inheritedMember k =
     (if k = ''__proto__'' then Some (Obj [])
      else (case map_of objectPrototypeMethods k of
              None \<Rightarrow> None
            | Some n \<Rightarrow>
                Some (Obj [(''length'', Num (int n)),
                           (''name'', Str (if k = ''constructor'' then ''Object'' else k))])))"

text \<open>
  \<open>this.toolCache[cacheKey]\<close>: the entry stored under the key, else the inherited member
  of that name, else \<open>undefined\<close>. An entry is stored only after this read was falsy, so
  from an empty cache no entry is ever stored under an inherited name.
\<close>

definition cached :: "toolSource \<Rightarrow> string \<Rightarrow> jsval" where
  "cached s k =
     (case toolCache s k of
        Some v \<Rightarrow> v
      | None \<Rightarrow> (case inheritedMember k of None \<Rightarrow> Undefined | Some v \<Rightarrow> v))"

text \<open>
  \<open>getTools\<close>. \<open>isConnected\<close> is the connection table of the connector integration as it
  stands after initialization; \<open>fetchTools n\<close> is the settled outcome of the backend call
  \<open>composioIntegration.getTools\<close> made after \<open>n\<close> earlier ones. The result pairs what the
  call returns (\<open>Inr\<close>) or throws (\<open>Inl\<close>) with the state it leaves.
\<close>

definition getTools ::
  "(string \<Rightarrow> bool) \<Rightarrow> (nat \<Rightarrow> string \<Rightarrow> string list \<Rightarrow> string list \<Rightarrow> jsval + jsval) \<Rightarrow> bool
     \<Rightarrow> string \<Rightarrow> string list \<Rightarrow> string list \<Rightarrow> toolSource \<Rightarrow> (jsval + jsval) \<times> toolSource" where
  "getTools isConnected fetchTools integrationReady appName actions tags s0 =
     (let s = (if \<not> initialized s0 then initialize integrationReady s0 else s0)
      in if \<not> isConnected appName
         then (Inl (Err ''Error'' (''Not connected to '' @ appName @ ''. Please connect first.'')),
               s)
         else
           (let key = cacheKey appName actions tags
            in if truthy (cached s key) then (Inr (cached s key), s)
               else
                 (case fetchTools (length (backendCalls s)) appName actions tags of
                    Inl error \<Rightarrow>
                      (Inl error,
                       s\<lparr>backendCalls := backendCalls s @ [(appName, actions, tags)]\<rparr>)
                  | Inr tools' \<Rightarrow>
                      (Inr tools',
                       s\<lparr>toolCache := (toolCache s)(key \<mapsto> tools'),
                         backendCalls := backendCalls s @ [(appName, actions, tags)]\<rparr>))))"


section \<open>The personalization tool-call path (js/mcp/mcp-client.js)\<close>

text \<open>
  An entry of the client's \<open>tools\<close> map. \<open>handler\<close> gives, for the decoded arguments, the
  value the awaited handler resolves to (\<open>Inr\<close>) or the value it throws or rejects with
  (\<open>Inl\<close>).
\<close>

record mcpTool =
  description :: jsval
  handler :: "jsval \<Rightarrow> jsval + jsval"
  schema :: jsval

record toolCall =
  tc_name :: string
  tc_id :: jsval
  tc_arguments :: jsval

text \<open>
  The local effect of \<open>registerTool\<close>: the entry is stored under the name, replacing any
  earlier one, before the tool is announced to the adapter.
\<close>

definition mcp_registerTool ::
  "string \<Rightarrow> jsval \<Rightarrow> (jsval \<Rightarrow> jsval + jsval) \<Rightarrow> jsval \<Rightarrow> (string \<rightharpoonup> mcpTool)
     \<Rightarrow> (string \<rightharpoonup> mcpTool)" where
  "mcp_registerTool name d h sch ts =
     ts(name \<mapsto> \<lparr>description = d, handler = h, schema = sch\<rparr>)"

text \<open>
  The body of the \<open>try\<close> block of \<open>handleToolCall\<close>: string arguments are decoded with
  \<open>JSON.parse\<close>, then the handler runs. \<open>JSON_parse\<close> is the platform's parser: \<open>Inr\<close> the
  decoded value, or \<open>Inl\<close> the message of the \<open>SyntaxError\<close> it throws.
\<close>

definition tryHandler ::
  "(string \<Rightarrow> string + jsval) \<Rightarrow> mcpTool \<Rightarrow> jsval \<Rightarrow> jsval + jsval" where
  "tryHandler JSON_parse tool args =
     (case args of
        Str text \<Rightarrow>
          (case JSON_parse text of
             Inl message \<Rightarrow> Inl (Err ''SyntaxError'' message)
           | Inr parsedArgs \<Rightarrow> handler tool parsedArgs)
      | _ \<Rightarrow> handler tool args)"

text \<open>
  \<open>error.message || String(error)\<close> of the \<open>catch\<close> block. Reading \<open>message\<close> throws on
  \<open>undefined\<close> and \<open>null\<close>; \<open>String\<close> is called only when the message is falsy.
\<close>

definition errorText :: "jsval \<Rightarrow> jsval + jsval" where
  "errorText error =
     (case js_get error ''message'' of
        Inl thrown \<Rightarrow> Inl thrown
      | Inr message \<Rightarrow>
          (if truthy message then Inr message
           else (case js_String error of Inl thrown \<Rightarrow> Inl thrown | Inr text \<Rightarrow> Inr (Str text))))"

text \<open>
  \<open>MCPClient.handleToolCall\<close>: \<open>Inr\<close> the result entry, or \<open>Inl\<close> the exception the returned
  promise rejects with.
\<close>

definition mcp_handleToolCall ::
  "(string \<Rightarrow> string + jsval) \<Rightarrow> (string \<rightharpoonup> mcpTool) \<Rightarrow> toolCall \<Rightarrow> jsval + jsval" where
  "mcp_handleToolCall JSON_parse ts toolCall =
     (let name = tc_name toolCall; id' = tc_id toolCall; args = tc_arguments toolCall
      in case ts name of
           None \<Rightarrow>
             Inr (Obj [(''toolCallId'', id'), (''name'', Str name), (''status'', Str ''error''),
                       (''error'', Str (''Tool not found: '' @ name))])
         | Some tool \<Rightarrow>
             (case tryHandler JSON_parse tool args of
                Inr result \<Rightarrow>
                  Inr (Obj [(''toolCallId'', id'), (''name'', Str name),
                            (''status'', Str ''success''), (''result'', result)])
              | Inl error \<Rightarrow>
                  (case errorText error of
                     Inl thrown \<Rightarrow> Inl thrown
                   | Inr text \<Rightarrow>
                       Inr (Obj [(''toolCallId'', id'), (''name'', Str name),
                                 (''status'', Str ''error''), (''error'', text)]))))"

text \<open>
  \<open>Promise.all\<close> over settled outcomes: all the values in order, or nothing when one of
  them is a rejection.
\<close>

fun promiseAll :: "(jsval + jsval) list \<Rightarrow> jsval list option" where
  "promiseAll [] = Some []"
| "promiseAll (Inl e # rest) = None"
| "promiseAll (Inr v # rest) = (case promiseAll rest of None \<Rightarrow> None | Some vs \<Rightarrow> Some (v # vs))"

text \<open>
  The \<open>message\<close> listener installed by \<open>setupEventListeners\<close>, as the list of messages it
  passes to \<open>adapter.sendMessage\<close>. \<open>toolCalls\<close> is \<open>Some\<close> the array \<open>content.toolCalls\<close>,
  or \<open>None\<close> when the event has no content or its \<open>toolCalls\<close> is not an array. A rejection
  of \<open>Promise.all\<close> is caught and logged, and nothing is sent.
\<close>

definition messageListener ::
  "(string \<Rightarrow> string + jsval) \<Rightarrow> (string \<rightharpoonup> mcpTool) \<Rightarrow> toolCall list option \<Rightarrow> jsval list" where
  "messageListener JSON_parse ts toolCalls =
     (case toolCalls of
        None \<Rightarrow> []
      | Some calls \<Rightarrow>
          (case promiseAll (map (mcp_handleToolCall JSON_parse ts) calls) of
             None \<Rightarrow> []
           | Some results \<Rightarrow>
               [Obj [(''type'', Str ''tool_results''), (''results'', Arr results)]]))"

text \<open>
  A call whose handling ends in a result entry: no tool of that name, or the \<open>try\<close> block
  returns, or it throws a value whose text the \<open>catch\<close> block can take.
\<close>

definition reportable :: "jsval \<Rightarrow> bool" where
  "reportable error = (case errorText error of Inl thrown \<Rightarrow> False | Inr text \<Rightarrow> True)"

definition settles :: "(string \<Rightarrow> string + jsval) \<Rightarrow> (string \<rightharpoonup> mcpTool) \<Rightarrow> toolCall \<Rightarrow> bool" where
  "settles JSON_parse ts toolCall =
     (case ts (tc_name toolCall) of
        None \<Rightarrow> True
      | Some tool \<Rightarrow>
          (case tryHandler JSON_parse tool (tc_arguments toolCall) of
             Inr result \<Rightarrow> True
           | Inl error \<Rightarrow> reportable error))"

text \<open>A call whose tool is registered and whose \<open>try\<close> block returns.\<close>

definition succeeds :: "(string \<Rightarrow> string + jsval) \<Rightarrow> (string \<rightharpoonup> mcpTool) \<Rightarrow> toolCall \<Rightarrow> bool" where
  "succeeds JSON_parse ts toolCall =
     (case ts (tc_name toolCall) of
        None \<Rightarrow> False
      | Some tool \<Rightarrow>
          (case tryHandler JSON_parse tool (tc_arguments toolCall) of
             Inr result \<Rightarrow> True
           | Inl error \<Rightarrow> False))"

section \<open>The memory bridge (SecondMeMemory)\<close>

text \<open>
  The object \<open>retrievalOptions\<close> built by \<open>retrieveMemories\<close> from the properties of
  \<open>options\<close>: four defaulted properties, then \<open>options\<close> spread over them.
\<close>

definition retrievalOptions :: "(string \<times> jsval) list \<Rightarrow> (string \<times> jsval) list" where
  "retrievalOptions options =
     [(''limit'', js_or (js_own options ''limit'') (Num 10)),
      (''offset'', js_or (js_own options ''offset'') (Num 0)),
      (''sortBy'', js_or (js_own options ''sortBy'') (Str ''timestamp'')),
      (''sortDirection'', js_or (js_own options ''sortDirection'') (Str ''desc''))] @ options"

text \<open>
  \<open>retrieveMemories\<close>. \<open>options\<close> is \<open>None\<close> when the argument is omitted, and otherwise the
  properties of the object passed. \<open>sendMessage\<close> is the adapter's; what it throws is
  rethrown, so the call's outcome is that of \<open>sendMessage\<close>.
\<close>

definition retrieveMemories ::
  "(jsval \<Rightarrow> jsval + jsval) \<Rightarrow> jsval \<Rightarrow> (string \<times> jsval) list option \<Rightarrow> jsval + jsval" where
  "retrieveMemories sendMessage query options =
     sendMessage
       (Obj [(''type'', Str ''memory''), (''action'', Str ''retrieve''), (''query'', query),
             (''options'',
              Obj (retrievalOptions (case options of None \<Rightarrow> [] | Some ps \<Rightarrow> ps)))])"

text \<open>
  The defaults as the specification lists them, and the merge of defaults under
  overrides: a key the overrides define takes their value, any other key the default.
\<close>

definition defaultOptions :: "(string \<times> jsval) list" where
  "defaultOptions =
     [(''limit'', Num 10), (''offset'', Num 0), (''sortBy'', Str ''timestamp''),
      (''sortDirection'', Str ''desc'')]"

definition mergedUnder :: "(string \<times> jsval) list \<Rightarrow> (string \<times> jsval) list \<Rightarrow> string \<Rightarrow> jsval" where
  "mergedUnder defaults overrides k =
     (if k \<in> set (map fst overrides) then js_own overrides k else js_own defaults k)"

section \<open>Routing of a prefixed name whose app is not connected\<close>

text \<open>
  C1. A call whose name matches \<open>^[a-z]+_\<close> while the captured app is not connected is
  not sent to the connector executor, whatever that executor would do: the local tools
  are looked up under the full name. When none is registered the envelope
  \<open>{output: null, id, error: "Tool not found: <name>"}\<close> is returned, not thrown; when one
  is registered it is executed, and the envelope is \<open>{output: result, id, error: null}\<close>
  if it resolves and \<open>{output: null, id, error: e.message}\<close> if it throws \<open>e\<close>.
\<close>

theorem unconnected_prefix_falls_through:
  assumes "appNameMatch (fc_name c) = Some appName"
    and "\<not> isConnected appName"
  shows "(fc_name c \<notin> set (map fst (tools m)) \<longrightarrow>
            handleToolCall isConnected executeTool m c =
              Inr (Obj [(''output'', Null), (''id'', fc_id c),
                        (''error'', Str (''Tool not found: '' @ fc_name c))]))
       \<and> (\<forall>t. map_of (tools m) (fc_name c) = Some t \<longrightarrow>
            handleToolCall isConnected executeTool m c =
              (case execute t (fc_args c) of
                 Inr result \<Rightarrow>
                   Inr (Obj [(''output'', result), (''id'', fc_id c), (''error'', Null)])
               | Inl e \<Rightarrow>
                   (case js_get e ''message'' of
                      Inl thrown \<Rightarrow> Inl thrown
                    | Inr message \<Rightarrow>
                        Inr (Obj [(''output'', Null), (''id'', fc_id c),
                                  (''error'', message)]))))"
proof (intro conjI impI allI)
  assume "fc_name c \<notin> set (map fst (tools m))"
  then have "map_of (tools m) (fc_name c) = None"
    by (simp add: map_of_eq_None_iff)
  with assms show "handleToolCall isConnected executeTool m c =
      Inr (Obj [(''output'', Null), (''id'', fc_id c),
                (''error'', Str (''Tool not found: '' @ fc_name c))])"
    by (simp add: handleToolCall_def)
next
  fix t
  assume "map_of (tools m) (fc_name c) = Some t"
  with assms show "handleToolCall isConnected executeTool m c =
      (case execute t (fc_args c) of
         Inr result \<Rightarrow> Inr (Obj [(''output'', result), (''id'', fc_id c), (''error'', Null)])
       | Inl e \<Rightarrow>
           (case js_get e ''message'' of
              Inl thrown \<Rightarrow> Inl thrown
            | Inr message \<Rightarrow>
                Inr (Obj [(''output'', Null), (''id'', fc_id c), (''error'', message)])))"
    by (simp add: handleToolCall_def catchError_def split: sum.splits)
qed

text \<open>
  With only \<open>gmail\<close> connected: \<open>ab_doSomething\<close> is not registered and is reported not
  found; \<open>ab_echo\<close> is a registered local tool and is executed, although the connector
  executor would have answered \<open>sent\<close>.
\<close>

theorem unconnected_prefix_falls_through_witness:
  "appNameMatch (fc_name \<lparr>fc_name = ''ab_doSomething'', fc_args = Obj [], fc_id = Str ''call-1''\<rparr>)
     = Some ''ab''
   \<and> \<not> (''ab'' = ''gmail'')
   \<and> handleToolCall (\<lambda>a. a = ''gmail'') (\<lambda>n a. Inr (Str ''sent''))
       (registerTool ''ab_echo'' \<lparr>getDeclaration = None, execute = (\<lambda>a. Inr a)\<rparr> newToolManager)
       \<lparr>fc_name = ''ab_doSomething'', fc_args = Obj [], fc_id = Str ''call-1''\<rparr>
     = Inr (Obj [(''output'', Null), (''id'', Str ''call-1''),
                 (''error'', Str ''Tool not found: ab_doSomething'')])
   \<and> handleToolCall (\<lambda>a. a = ''gmail'') (\<lambda>n a. Inr (Str ''sent''))
       (registerTool ''ab_echo'' \<lparr>getDeclaration = None, execute = (\<lambda>a. Inr a)\<rparr> newToolManager)
       \<lparr>fc_name = ''ab_echo'', fc_args = Str ''hello'', fc_id = Str ''call-2''\<rparr>
     = Inr (Obj [(''output'', Str ''hello''), (''id'', Str ''call-2''), (''error'', Null)])"
proof -
  let ?m = "registerTool ''ab_echo'' \<lparr>getDeclaration = None, execute = (\<lambda>a. Inr a)\<rparr>
              newToolManager"
  let ?c1 = "\<lparr>fc_name = ''ab_doSomething'', fc_args = Obj [], fc_id = Str ''call-1''\<rparr>"
  let ?c2 = "\<lparr>fc_name = ''ab_echo'', fc_args = Str ''hello'', fc_id = Str ''call-2''\<rparr>"
  have a1: "appNameMatch (fc_name ?c1) = Some ''ab''"
    by (simp add: appNameMatch_def isLower_def)
  have a2: "appNameMatch (fc_name ?c2) = Some ''ab''"
    by (simp add: appNameMatch_def isLower_def)
  have b: "\<not> (\<lambda>a. a = ''gmail'') ''ab''"
    by simp
  have n1: "fc_name ?c1 \<notin> set (map fst (tools ?m))"
    by (simp add: registerTool_def newToolManager_def)
  have n2: "map_of (tools ?m) (fc_name ?c2)
              = Some \<lparr>getDeclaration = None, execute = (\<lambda>a. Inr a)\<rparr>"
    by (simp add: registerTool_def newToolManager_def)
  note t1 = unconnected_prefix_falls_through
         [where isConnected = "\<lambda>a. a = ''gmail''" and appName = "''ab''"
            and executeTool = "\<lambda>n a. Inr (Str ''sent'')" and m = ?m, OF a1 b]
  note t2 = unconnected_prefix_falls_through
         [where isConnected = "\<lambda>a. a = ''gmail''" and appName = "''ab''"
            and executeTool = "\<lambda>n a. Inr (Str ''sent'')" and m = ?m, OF a2 b]
  from t1 n1 have r1: "handleToolCall (\<lambda>a. a = ''gmail'') (\<lambda>n a. Inr (Str ''sent'')) ?m ?c1
                       = Inr (Obj [(''output'', Null), (''id'', Str ''call-1''),
                                   (''error'', Str ''Tool not found: ab_doSomething'')])"
    by simp
  from t2 n2 have r2: "handleToolCall (\<lambda>a. a = ''gmail'') (\<lambda>n a. Inr (Str ''sent'')) ?m ?c2
                       = Inr (Obj [(''output'', Str ''hello''), (''id'', Str ''call-2''),
                                   (''error'', Null)])"
    by simp
  from a1 r1 r2 show ?thesis
    by simp
qed

section \<open>The result envelope of the broker\<close>

lemma js_get_message_Inr: "\<not> nullish e \<Longrightarrow> \<exists>msg. js_get e ''message'' = Inr msg"
  by (cases e) (simp_all add: nullish_def)

lemma catchError_Inr:
  "\<not> nullish e \<Longrightarrow>
     \<exists>msg. catchError i e = Inr (Obj [(''output'', Null), (''id'', i), (''error'', msg)])"
  using js_get_message_Inr [of e] by (auto simp: catchError_def)

lemma catchError_TypeError:
  "js_get r k = Inl te \<Longrightarrow>
     catchError i te =
       Inr (Obj [(''output'', Null), (''id'', i), (''error'', Str (typeErrorText r k))])"
  by (cases r) (auto simp: catchError_def)

text \<open>
  C2, as the code has it. The envelope of \<open>handleToolCall\<close> has the three fields
  \<open>output\<close>, \<open>id\<close> and \<open>error\<close> and no others; \<open>id\<close> is the request's. Whenever the
  executor that the call is routed to (the connector's when the prefix is that of a
  connected app, the local tool's otherwise) does not reject with \<open>undefined\<close> or \<open>null\<close>,
  the call returns such an envelope and does not throw, and at least one of \<open>output\<close> and
  \<open>error\<close> is \<open>null\<close>, according to the outcome:
  \<^item> the executor resolves to \<open>r\<close>: \<open>error\<close> is \<open>null\<close> and \<open>output\<close> is \<open>r\<close> for a local tool,
    \<open>r.output || r\<close> for the connector (where an \<open>r\<close> that is \<open>undefined\<close> or \<open>null\<close> counts
    as a failure, with the message of the \<open>TypeError\<close>);
  \<^item> the executor throws \<open>e\<close>: \<open>output\<close> is \<open>null\<close> and \<open>error\<close> is \<open>e.message\<close>;
  \<^item> no local tool has the name: \<open>output\<close> is \<open>null\<close> and \<open>error\<close> is the not-found text.
\<close>

theorem handleToolCall_envelope:
  assumes "(case appNameMatch (fc_name c) of None \<Rightarrow> False | Some a \<Rightarrow> isConnected a)
           \<Longrightarrow> \<not> rejectsNullish (executeTool (fc_name c) (fc_args c))"
    and "\<not> (case appNameMatch (fc_name c) of None \<Rightarrow> False | Some a \<Rightarrow> isConnected a)
         \<Longrightarrow> (case map_of (tools m) (fc_name c) of None \<Rightarrow> True
              | Some t \<Rightarrow> \<not> rejectsNullish (execute t (fc_args c)))"
  shows "(\<exists>output error.
            handleToolCall isConnected executeTool m c =
              Inr (Obj [(''output'', output), (''id'', fc_id c), (''error'', error)])
            \<and> (output = Null \<or> error = Null))
       \<and> ((case appNameMatch (fc_name c) of None \<Rightarrow> False | Some a \<Rightarrow> isConnected a) \<longrightarrow>
            (\<forall>r. executeTool (fc_name c) (fc_args c) = Inr r \<longrightarrow> \<not> nullish r \<longrightarrow>
               (\<exists>v. js_get r ''output'' = Inr v
                  \<and> handleToolCall isConnected executeTool m c =
                      Inr (Obj [(''output'', if truthy v then v else r), (''id'', fc_id c),
                                (''error'', Null)])))
          \<and> (\<forall>r. executeTool (fc_name c) (fc_args c) = Inr r \<longrightarrow> nullish r \<longrightarrow>
               handleToolCall isConnected executeTool m c =
                 Inr (Obj [(''output'', Null), (''id'', fc_id c),
                           (''error'', Str (typeErrorText r ''output''))]))
          \<and> (\<forall>e. executeTool (fc_name c) (fc_args c) = Inl e \<longrightarrow>
               (\<exists>message. js_get e ''message'' = Inr message
                  \<and> handleToolCall isConnected executeTool m c =
                      Inr (Obj [(''output'', Null), (''id'', fc_id c), (''error'', message)]))))
       \<and> (\<not> (case appNameMatch (fc_name c) of None \<Rightarrow> False | Some a \<Rightarrow> isConnected a) \<longrightarrow>
            (map_of (tools m) (fc_name c) = None \<longrightarrow>
               handleToolCall isConnected executeTool m c =
                 Inr (Obj [(''output'', Null), (''id'', fc_id c),
                           (''error'', Str (''Tool not found: '' @ fc_name c))]))
          \<and> (\<forall>t r. map_of (tools m) (fc_name c) = Some t \<longrightarrow> execute t (fc_args c) = Inr r \<longrightarrow>
               handleToolCall isConnected executeTool m c =
                 Inr (Obj [(''output'', r), (''id'', fc_id c), (''error'', Null)]))
          \<and> (\<forall>t e. map_of (tools m) (fc_name c) = Some t \<longrightarrow> execute t (fc_args c) = Inl e \<longrightarrow>
               (\<exists>message. js_get e ''message'' = Inr message
                  \<and> handleToolCall isConnected executeTool m c =
                      Inr (Obj [(''output'', Null), (''id'', fc_id c), (''error'', message)]))))"
proof -
  let ?routed = "case appNameMatch (fc_name c) of None \<Rightarrow> False | Some a \<Rightarrow> isConnected a"
  let ?h = "handleToolCall isConnected executeTool m c"
  have resolved: "\<exists>v. js_get r ''output'' = Inr v
                    \<and> ?h = Inr (Obj [(''output'', if truthy v then v else r), (''id'', fc_id c),
                                     (''error'', Null)])"
    if "?routed" "executeTool (fc_name c) (fc_args c) = Inr r" "\<not> nullish r" for r
    using that by (cases r) (simp_all add: handleToolCall_def js_or_def nullish_def)
  have unreadable: "?h = Inr (Obj [(''output'', Null), (''id'', fc_id c),
                                   (''error'', Str (typeErrorText r ''output''))])"
    if "?routed" "executeTool (fc_name c) (fc_args c) = Inr r" "nullish r" for r
    using that by (auto simp: handleToolCall_def catchError_def nullish_def)
  have thrown: "\<exists>message. js_get e ''message'' = Inr message
                  \<and> ?h = Inr (Obj [(''output'', Null), (''id'', fc_id c), (''error'', message)])"
    if "?routed" "executeTool (fc_name c) (fc_args c) = Inl e" for e
  proof -
    from assms(1) [OF that(1)] that(2) have "\<not> nullish e"
      by (simp add: rejectsNullish_def)
    from js_get_message_Inr [OF this] obtain message where "js_get e ''message'' = Inr message"
      by blast
    with that show ?thesis
      by (simp add: handleToolCall_def catchError_def)
  qed
  have notfound: "?h = Inr (Obj [(''output'', Null), (''id'', fc_id c),
                                 (''error'', Str (''Tool not found: '' @ fc_name c))])"
    if "\<not> ?routed" "map_of (tools m) (fc_name c) = None"
    using that by (simp add: handleToolCall_def)
  have local_resolved: "?h = Inr (Obj [(''output'', r), (''id'', fc_id c), (''error'', Null)])"
    if "\<not> ?routed" "map_of (tools m) (fc_name c) = Some t" "execute t (fc_args c) = Inr r"
    for t r
    using that by (simp add: handleToolCall_def)
  have local_thrown: "\<exists>message. js_get e ''message'' = Inr message
                  \<and> ?h = Inr (Obj [(''output'', Null), (''id'', fc_id c), (''error'', message)])"
    if "\<not> ?routed" "map_of (tools m) (fc_name c) = Some t" "execute t (fc_args c) = Inl e"
    for t e
  proof -
    from assms(2) [OF that(1)] that(2,3) have "\<not> nullish e"
      by (simp add: rejectsNullish_def)
    from js_get_message_Inr [OF this] obtain message where "js_get e ''message'' = Inr message"
      by blast
    with that show ?thesis
      by (simp add: handleToolCall_def catchError_def)
  qed
  have returns: "\<exists>output error.
                   ?h = Inr (Obj [(''output'', output), (''id'', fc_id c), (''error'', error)])
                   \<and> (output = Null \<or> error = Null)"
  proof (cases ?routed)
    case True
    show ?thesis
    proof (cases "executeTool (fc_name c) (fc_args c)")
      case (Inl e)
      from thrown [OF True Inl] show ?thesis by auto
    next
      case (Inr r)
      show ?thesis
      proof (cases "nullish r")
        case True
        from unreadable [OF \<open>?routed\<close> Inr True] show ?thesis by auto
      next
        case False
        from resolved [OF \<open>?routed\<close> Inr False] show ?thesis by auto
      qed
    qed
  next
    case False
    show ?thesis
    proof (cases "map_of (tools m) (fc_name c)")
      case None
      from notfound [OF False None] show ?thesis by auto
    next
      case (Some t)
      show ?thesis
      proof (cases "execute t (fc_args c)")
        case (Inl e)
        from local_thrown [OF False Some Inl] show ?thesis by auto
      next
        case (Inr r)
        from local_resolved [OF False Some Inr] show ?thesis by auto
      qed
    qed
  qed
  from returns resolved unreadable thrown notfound local_resolved local_thrown
  show ?thesis
    by (intro conjI impI allI)
qed

text \<open>
  A local tool and a connector backend that both throw an \<open>Error\<close>, and a local tool that
  resolves: the error envelopes carry the message and a \<open>null\<close> output, the success
  envelope the result and a \<open>null\<close> error.
\<close>

theorem handleToolCall_envelope_witness:
  "handleToolCall (\<lambda>a. a = ''gmail'') (\<lambda>n a. Inl (Err ''Error'' ''HTTP 500''))
     (registerTool ''echo'' \<lparr>getDeclaration = None, execute = (\<lambda>a. Inr a)\<rparr>
        (registerTool ''googleSearch''
           \<lparr>getDeclaration = None, execute = (\<lambda>a. Inl (Err ''Error'' ''boom''))\<rparr>
           newToolManager))
     \<lparr>fc_name = ''googleSearch'', fc_args = Obj [], fc_id = Str ''call-2''\<rparr>
   = Inr (Obj [(''output'', Null), (''id'', Str ''call-2''), (''error'', Str ''boom'')])
   \<and> handleToolCall (\<lambda>a. a = ''gmail'') (\<lambda>n a. Inl (Err ''Error'' ''HTTP 500''))
       (registerTool ''echo'' \<lparr>getDeclaration = None, execute = (\<lambda>a. Inr a)\<rparr>
          (registerTool ''googleSearch''
             \<lparr>getDeclaration = None, execute = (\<lambda>a. Inl (Err ''Error'' ''boom''))\<rparr>
             newToolManager))
       \<lparr>fc_name = ''gmail_send'', fc_args = Obj [], fc_id = Str ''call-3''\<rparr>
     = Inr (Obj [(''output'', Null), (''id'', Str ''call-3''), (''error'', Str ''HTTP 500'')])
   \<and> handleToolCall (\<lambda>a. a = ''gmail'') (\<lambda>n a. Inl (Err ''Error'' ''HTTP 500''))
       (registerTool ''echo'' \<lparr>getDeclaration = None, execute = (\<lambda>a. Inr a)\<rparr>
          (registerTool ''googleSearch''
             \<lparr>getDeclaration = None, execute = (\<lambda>a. Inl (Err ''Error'' ''boom''))\<rparr>
             newToolManager))
       \<lparr>fc_name = ''echo'', fc_args = Str ''hello'', fc_id = Str ''call-4''\<rparr>
     = Inr (Obj [(''output'', Str ''hello''), (''id'', Str ''call-4''), (''error'', Null)])"
proof -
  let ?search = "\<lparr>getDeclaration = None, execute = (\<lambda>a. Inl (Err ''Error'' ''boom''))\<rparr>"
  let ?echo = "\<lparr>getDeclaration = None, execute = (\<lambda>a. Inr a)\<rparr>"
  let ?m = "registerTool ''echo'' ?echo (registerTool ''googleSearch'' ?search newToolManager)"
  let ?ex = "\<lambda>(n :: string) (a :: jsval). (Inl (Err ''Error'' ''HTTP 500'') :: jsval + jsval)"
  let ?c2 = "\<lparr>fc_name = ''googleSearch'', fc_args = Obj [], fc_id = Str ''call-2''\<rparr>"
  let ?c3 = "\<lparr>fc_name = ''gmail_send'', fc_args = Obj [], fc_id = Str ''call-3''\<rparr>"
  let ?c4 = "\<lparr>fc_name = ''echo'', fc_args = Str ''hello'', fc_id = Str ''call-4''\<rparr>"
  have p2: "appNameMatch (fc_name ?c2) = None"
    by (simp add: appNameMatch_def isLower_def)
  have p3: "appNameMatch (fc_name ?c3) = Some ''gmail''"
    by (simp add: appNameMatch_def isLower_def)
  have p4: "appNameMatch (fc_name ?c4) = None"
    by (simp add: appNameMatch_def isLower_def)
  have t2: "map_of (tools ?m) ''googleSearch'' = Some ?search"
    by (simp add: registerTool_def newToolManager_def)
  have t4: "map_of (tools ?m) ''echo'' = Some ?echo"
    by (simp add: registerTool_def newToolManager_def)
  have e3: "\<not> rejectsNullish (?ex (fc_name ?c3) (fc_args ?c3))"
    by (simp add: rejectsNullish_def nullish_def)
  have e2: "case map_of (tools ?m) (fc_name ?c2) of None \<Rightarrow> True
            | Some t \<Rightarrow> \<not> rejectsNullish (execute t (fc_args ?c2))"
    by (simp add: t2 rejectsNullish_def nullish_def)
  have e4: "case map_of (tools ?m) (fc_name ?c4) of None \<Rightarrow> True
            | Some t \<Rightarrow> \<not> rejectsNullish (execute t (fc_args ?c4))"
    by (simp add: t4 rejectsNullish_def)
  have r2: "handleToolCall (\<lambda>a. a = ''gmail'') ?ex ?m ?c2
              = Inr (Obj [(''output'', Null), (''id'', Str ''call-2''), (''error'', Str ''boom'')])"
    using handleToolCall_envelope
            [where isConnected = "\<lambda>a. a = ''gmail''" and executeTool = ?ex and m = ?m
               and c = ?c2] p2 e2 t2
    by simp
  have r3: "handleToolCall (\<lambda>a. a = ''gmail'') ?ex ?m ?c3
              = Inr (Obj [(''output'', Null), (''id'', Str ''call-3''),
                          (''error'', Str ''HTTP 500'')])"
    using handleToolCall_envelope
            [where isConnected = "\<lambda>a. a = ''gmail''" and executeTool = ?ex and m = ?m
               and c = ?c3] p3 e3
    by simp
  have r4: "handleToolCall (\<lambda>a. a = ''gmail'') ?ex ?m ?c4
              = Inr (Obj [(''output'', Str ''hello''), (''id'', Str ''call-4''),
                          (''error'', Null)])"
    using handleToolCall_envelope
            [where isConnected = "\<lambda>a. a = ''gmail''" and executeTool = ?ex and m = ?m
               and c = ?c4] p4 e4 t4
    by simp
  from r2 r3 r4 show ?thesis
    by simp
qed

text \<open>
  Where C2 as stated fails. A tool that resolves to \<open>undefined\<close> gives an envelope in
  which neither \<open>output\<close> nor \<open>error\<close> is populated, and the envelope has no \<open>name\<close> and no
  \<open>status\<close> field; a tool that rejects with \<open>undefined\<close> makes the \<open>catch\<close> block itself
  throw, and the call rejects with a \<open>TypeError\<close>.
\<close>

theorem handleToolCall_envelope_counterexample:
  "handleToolCall (\<lambda>a. a = ''gmail'') (\<lambda>n a. Inr (Str ''sent''))
     (registerTool ''quiet'' \<lparr>getDeclaration = None, execute = (\<lambda>a. Inr Undefined)\<rparr>
        newToolManager)
     \<lparr>fc_name = ''quiet'', fc_args = Obj [], fc_id = Str ''call-3''\<rparr>
   = Inr (Obj [(''output'', Undefined), (''id'', Str ''call-3''), (''error'', Null)])
   \<and> js_keys (Obj [(''output'', Undefined), (''id'', Str ''call-3''), (''error'', Null)])
       = [''output'', ''id'', ''error'']
   \<and> js_get (Obj [(''output'', Undefined), (''id'', Str ''call-3''), (''error'', Null)]) ''name''
       = Inr Undefined
   \<and> js_get (Obj [(''output'', Undefined), (''id'', Str ''call-3''), (''error'', Null)]) ''status''
       = Inr Undefined
   \<and> handleToolCall (\<lambda>a. a = ''gmail'') (\<lambda>n a. Inr (Str ''sent''))
       (registerTool ''timer'' \<lparr>getDeclaration = None, execute = (\<lambda>a. Inl Undefined)\<rparr>
          newToolManager)
       \<lparr>fc_name = ''timer'', fc_args = Obj [], fc_id = Str ''call-4''\<rparr>
     = Inl (Err ''TypeError'' (typeErrorText Undefined ''message''))"
  by (simp add: handleToolCall_def registerTool_def newToolManager_def appNameMatch_def
      isLower_def catchError_def js_own_def)

section \<open>The connector route\<close>

text \<open>
  C3, as the code has it. For a call routed to the connector (prefix captured, app
  connected): when the backend resolves to \<open>r\<close> and \<open>r.output\<close> can be read, the envelope
  is \<open>{output: r.output || r, id, error: null}\<close>, so \<open>output\<close> is \<open>r.output\<close> when that is
  truthy and \<open>r\<close> itself otherwise, also when \<open>r.output\<close> is \<open>0\<close>, \<open>""\<close> or \<open>false\<close>; when
  \<open>r\<close> is \<open>undefined\<close> or \<open>null\<close> the read throws inside the \<open>try\<close> and the envelope carries
  that \<open>TypeError\<close>'s message; when the backend throws \<open>e\<close> and \<open>e.message\<close> can be read,
  the envelope is \<open>{output: null, id, error: e.message}\<close>.
\<close>

theorem connector_route_envelope:
  assumes "appNameMatch (fc_name c) = Some appName" and "isConnected appName"
  shows "(\<forall>r output. executeTool (fc_name c) (fc_args c) = Inr r \<longrightarrow>
            js_get r ''output'' = Inr output \<longrightarrow>
            handleToolCall isConnected executeTool m c =
              Inr (Obj [(''output'', if truthy output then output else r), (''id'', fc_id c),
                        (''error'', Null)]))
       \<and> (\<forall>r. executeTool (fc_name c) (fc_args c) = Inr r \<longrightarrow> nullish r \<longrightarrow>
            handleToolCall isConnected executeTool m c =
              Inr (Obj [(''output'', Null), (''id'', fc_id c),
                        (''error'', Str (typeErrorText r ''output''))]))
       \<and> (\<forall>e message. executeTool (fc_name c) (fc_args c) = Inl e \<longrightarrow>
            js_get e ''message'' = Inr message \<longrightarrow>
            handleToolCall isConnected executeTool m c =
              Inr (Obj [(''output'', Null), (''id'', fc_id c), (''error'', message)]))"
  using assms
  by (auto simp: handleToolCall_def js_or_def catchError_def nullish_def)

text \<open>
  A backend result \<open>{output: "ok"}\<close> is unwrapped, and a backend \<open>Error\<close> becomes the
  error envelope.
\<close>

theorem connector_route_envelope_witness:
  "appNameMatch (fc_name \<lparr>fc_name = ''gmail_send'', fc_args = Obj [], fc_id = Str ''call-5''\<rparr>)
     = Some ''gmail''
   \<and> handleToolCall (\<lambda>a. a = ''gmail'') (\<lambda>n a. Inr (Obj [(''output'', Str ''ok'')]))
       newToolManager \<lparr>fc_name = ''gmail_send'', fc_args = Obj [], fc_id = Str ''call-5''\<rparr>
     = Inr (Obj [(''output'', Str ''ok''), (''id'', Str ''call-5''), (''error'', Null)])
   \<and> handleToolCall (\<lambda>a. a = ''gmail'') (\<lambda>n a. Inl (Err ''Error'' ''HTTP 500''))
       newToolManager \<lparr>fc_name = ''gmail_send'', fc_args = Obj [], fc_id = Str ''call-5''\<rparr>
     = Inr (Obj [(''output'', Null), (''id'', Str ''call-5''), (''error'', Str ''HTTP 500'')])"
proof -
  let ?c = "\<lparr>fc_name = ''gmail_send'', fc_args = Obj [], fc_id = Str ''call-5''\<rparr>"
  have a: "appNameMatch (fc_name ?c) = Some ''gmail''"
    by (simp add: appNameMatch_def isLower_def)
  have b: "(\<lambda>a. a = ''gmail'') ''gmail''"
    by simp
  from connector_route_envelope
         [where isConnected = "\<lambda>a. a = ''gmail''" and appName = "''gmail''"
            and executeTool = "\<lambda>n a. Inr (Obj [(''output'', Str ''ok'')])"
            and m = newToolManager, OF a b]
       connector_route_envelope
         [where isConnected = "\<lambda>a. a = ''gmail''" and appName = "''gmail''"
            and executeTool = "\<lambda>n a. Inl (Err ''Error'' ''HTTP 500'')"
            and m = newToolManager, OF a b]
       a
  show ?thesis by (simp add: js_own_def)
qed

text \<open>
  Where C3 as stated fails: for the backend result \<open>{output: 0}\<close> the envelope's output
  is the whole result, not \<open>0\<close> as \<open>r.output ?? r\<close> would give.
\<close>

theorem connector_route_envelope_counterexample:
  "handleToolCall (\<lambda>a. a = ''gmail'') (\<lambda>n a. Inr (Obj [(''output'', Num 0)]))
     newToolManager \<lparr>fc_name = ''gmail_count'', fc_args = Obj [], fc_id = Str ''call-6''\<rparr>
   = Inr (Obj [(''output'', Obj [(''output'', Num 0)]), (''id'', Str ''call-6''),
               (''error'', Null)])
   \<and> js_coalesce (Num 0) (Obj [(''output'', Num 0)]) = Num 0
   \<and> handleToolCall (\<lambda>a. a = ''gmail'') (\<lambda>n a. Inr (Obj [(''output'', Num 0)]))
       newToolManager \<lparr>fc_name = ''gmail_count'', fc_args = Obj [], fc_id = Str ''call-6''\<rparr>
     \<noteq> Inr (Obj [(''output'', js_coalesce (Num 0) (Obj [(''output'', Num 0)])),
                 (''id'', Str ''call-6''), (''error'', Null)])"
  by (simp add: handleToolCall_def appNameMatch_def isLower_def js_or_def js_coalesce_def
      nullish_def js_own_def)

section \<open>Registration and the declaration list\<close>

lemma registerAll_Nil: "registerAll [] m = m"
  by (simp add: registerAll_def)

lemma registerAll_Cons: "registerAll ((n, t) # regs) m = registerAll regs (registerTool n t m)"
  by (simp add: registerAll_def)

lemma registerTool_present: "n \<in> set (map fst (tools m)) \<Longrightarrow> registerTool n t m = m"
  by (simp add: registerTool_def)

lemma map_of_registerTool:
  "map_of (tools (registerTool n t m)) = map_of (tools m @ [(n, t)])"
proof (cases "n \<in> set (map fst (tools m))")
  case True
  then obtain v where "map_of (tools m) n = Some v"
    by (metis map_of_eq_None_iff not_Some_eq set_map)
  then have "map_of (tools m @ [(n, t)]) = map_of (tools m)"
    by (auto simp: map_add_def fun_eq_iff split: option.splits)
  with True show ?thesis by (simp add: registerTool_def)
next
  case False
  then show ?thesis by (simp add: registerTool_def)
qed

lemma map_of_registerAll:
  "map_of (tools (registerAll regs m)) = map_of (tools m @ regs)"
proof (induction regs arbitrary: m)
  case Nil
  show ?case by (simp add: registerAll_Nil)
next
  case (Cons r regs)
  obtain n t where r: "r = (n, t)" by (cases r)
  have "map_of (tools (registerAll (r # regs) m)) = map_of (tools (registerTool n t m) @ regs)"
    by (simp add: r registerAll_Cons Cons.IH)
  also have "\<dots> = map_of regs ++ map_of (tools (registerTool n t m))"
    by simp
  also have "\<dots> = map_of regs ++ map_of (tools m @ [(n, t)])"
    by (simp only: map_of_registerTool)
  also have "\<dots> = map_of (tools m @ r # regs)"
    by (simp add: r)
  finally show ?case .
qed

lemma keys_registerTool:
  "fst ` set (tools (registerTool n t m)) = insert n (fst ` set (tools m))"
  by (auto simp: registerTool_def)

lemma keys_registerAll:
  "fst ` set (tools (registerAll regs m)) = fst ` set (tools m) \<union> fst ` set regs"
proof (induction regs arbitrary: m)
  case Nil
  show ?case by (simp add: registerAll_Nil)
next
  case (Cons r regs)
  obtain n t where r: "r = (n, t)" by (cases r)
  have "fst ` set (tools (registerAll (r # regs) m))
          = fst ` set (tools (registerTool n t m)) \<union> fst ` set regs"
    by (simp only: r registerAll_Cons Cons.IH)
  then show ?case
    by (simp add: keys_registerTool r)
qed

lemma distinct_registerAll:
  "distinct (map fst (tools m)) \<Longrightarrow> distinct (map fst (tools (registerAll regs m)))"
proof (induction regs arbitrary: m)
  case Nil
  then show ?case by (simp add: registerAll_Nil)
next
  case (Cons r regs)
  obtain n t where r: "r = (n, t)" by (cases r)
  from Cons.prems have "distinct (map fst (tools (registerTool n t m)))"
    by (simp add: registerTool_def)
  from Cons.IH [OF this] show ?case by (simp add: r registerAll_Cons)
qed

lemma composioTools_registerAll: "composioTools (registerAll regs m) = composioTools m"
proof (induction regs arbitrary: m)
  case Nil
  show ?case by (simp add: registerAll_Nil)
next
  case (Cons r regs)
  obtain n t where r: "r = (n, t)" by (cases r)
  show ?case by (simp add: r registerAll_Cons Cons.IH registerTool_def)
qed

lemma accessorThrows_registerAll:
  assumes "\<not> list_ex accessorThrows (tools m)" and "\<not> list_ex accessorThrows regs"
  shows "\<not> list_ex accessorThrows (tools (registerAll regs m))"
  using assms
proof (induction regs arbitrary: m)
  case Nil
  then show ?case by (simp add: registerAll_Nil)
next
  case (Cons r regs)
  obtain n t where r: "r = (n, t)" by (cases r)
  from Cons.prems have "\<not> list_ex accessorThrows (tools (registerTool n t m))"
    by (simp add: r registerTool_def)
  moreover from Cons.prems have "\<not> list_ex accessorThrows regs" by simp
  ultimately show ?case using Cons.IH by (simp add: r registerAll_Cons)
qed

lemma pushLocal_map_filter:
  "\<not> list_ex accessorThrows ts \<Longrightarrow> pushLocal ts acc = Inr (acc @ List.map_filter declared ts)"
proof (induction ts arbitrary: acc)
  case Nil
  show ?case by (simp add: List.map_filter_simps)
next
  case (Cons r ts)
  obtain n t where r: "r = (n, t)" by (cases r)
  from Cons.prems have rest: "\<not> list_ex accessorThrows ts" by simp
  from Cons.prems have nothrow: "\<not> accessorThrows (n, t)" by (simp add: r)
  show ?case
  proof (cases "getDeclaration t")
    case None
    then show ?thesis
      by (simp add: r Cons.IH [OF rest] List.map_filter_simps declared_def)
  next
    case (Some o1)
    with nothrow obtain d where "getDeclaration t = Some (Inr d)"
      by (cases o1) (auto simp: accessorThrows_def)
    then show ?thesis
      by (simp add: r Cons.IH [OF rest] List.map_filter_simps declared_def)
  qed
qed

lemma count_map_filter:
  "length (filter (named nm) (List.map_filter declared ts)) = length (filter (declares nm) ts)"
  by (induction ts) (auto simp: List.map_filter_simps declares_def split: option.splits)

lemma registerAll_snoc:
  "registerAll (regs @ [(n, t)]) m = registerTool n t (registerAll regs m)"
  by (simp add: registerAll_def)

lemma keys_in_order:
  assumes "tools m = []"
  shows "map fst (tools (registerAll regs m)) = rev (remdups (rev (map fst regs)))"
proof (induction regs rule: rev_induct)
  case Nil
  show ?case by (simp add: registerAll_Nil assms)
next
  case (snoc r regs)
  obtain n t where r: "r = (n, t)" by (cases r)
  from keys_registerAll [of regs m] assms
  have k: "fst ` set (tools (registerAll regs m)) = fst ` set regs"
    by simp
  show ?case
  proof (cases "n \<in> fst ` set regs")
    case True
    with k snoc.IH show ?thesis
      by (simp add: r registerAll_snoc registerTool_def)
  next
    case False
    with k snoc.IH show ?thesis
      by (simp add: r registerAll_snoc registerTool_def)
  qed
qed

lemma pushFunctions_append:
  "pushFunctions ts (acc @ acc') =
     (case pushFunctions ts acc' of Inl e \<Rightarrow> Inl e | Inr gs \<Rightarrow> Inr (acc @ gs))"
proof (induction ts arbitrary: acc')
  case Nil
  show ?case by simp
next
  case (Cons t ts)
  show ?case
  proof (cases "js_get t ''function''")
    case (Inl e)
    then show ?thesis by simp
  next
    case (Inr f)
    have "pushFunctions (t # ts) (acc @ acc') = pushFunctions ts (acc @ (acc' @ [f]))"
      by (simp add: Inr)
    also have "\<dots> = (case pushFunctions ts (acc' @ [f]) of
                       Inl e \<Rightarrow> Inl e | Inr gs \<Rightarrow> Inr (acc @ gs))"
      by (rule Cons.IH)
    also have "pushFunctions ts (acc' @ [f]) = pushFunctions (t # ts) acc'"
      by (simp add: Inr)
    finally show ?thesis .
  qed
qed

lemma pushComposio_append:
  "pushComposio cs (acc @ acc') =
     (case pushComposio cs acc' of Inl e \<Rightarrow> Inl e | Inr fs \<Rightarrow> Inr (acc @ fs))"
proof (induction cs arbitrary: acc')
  case Nil
  show ?case by simp
next
  case (Cons c cs)
  obtain appName ts where c: "c = (appName, ts)" by (cases c)
  show ?case
  proof (cases "pushFunctions ts acc'")
    case (Inl e)
    then show ?thesis
      by (simp add: c pushFunctions_append)
  next
    case (Inr gs)
    have "pushComposio (c # cs) (acc @ acc') = pushComposio cs (acc @ gs)"
      by (simp add: c pushFunctions_append Inr)
    also have "\<dots> = (case pushComposio cs gs of Inl e \<Rightarrow> Inl e | Inr fs \<Rightarrow> Inr (acc @ fs))"
      by (rule Cons.IH)
    also have "pushComposio cs gs = pushComposio (c # cs) acc'"
      by (simp add: c Inr)
    finally show ?thesis .
  qed
qed

lemma pushComposio_from:
  "pushComposio cs [] = Inr fs \<Longrightarrow> pushComposio cs acc = Inr (acc @ fs)"
  using pushComposio_append [of cs acc "[]"] by simp

text \<open>
  C4, as the code has it. Take a manager whose connector tools \<open>cs\<close> have readable
  declarations \<open>fs\<close>, and register local tools whose declaration accessor, where present,
  returns. A registration under a name already present changes nothing, so each name
  keeps the tool first registered under it, and the registry lists the names in the
  order of their first registration: a new name is appended at the end.
  \<open>getToolDeclarations\<close> returns, in that order, exactly one entry per registered tool that
  has an accessor, namely the declaration that tool returns, followed by \<open>fs\<close>. The
  registry is keyed by the registered name, not by the declared one, so the number of
  entries with a given declared name is the number of registered tools that declare it
  plus the number of connector declarations of that name.
\<close>

theorem registerTool_declarations:
  assumes "\<not> list_ex accessorThrows regs"
    and "pushComposio cs [] = Inr fs"
  shows "map_of (tools (registerAll regs (newToolManager\<lparr>composioTools := cs\<rparr>))) = map_of regs
       \<and> map fst (tools (registerAll regs (newToolManager\<lparr>composioTools := cs\<rparr>)))
           = rev (remdups (rev (map fst regs)))
       \<and> (\<forall>name toolInstance.
            tools (registerAll (regs @ [(name, toolInstance)])
                     (newToolManager\<lparr>composioTools := cs\<rparr>))
              = (if name \<in> set (map fst regs)
                 then tools (registerAll regs (newToolManager\<lparr>composioTools := cs\<rparr>))
                 else tools (registerAll regs (newToolManager\<lparr>composioTools := cs\<rparr>))
                        @ [(name, toolInstance)]))
       \<and> (\<forall>name toolInstance. name \<in> set (map fst regs) \<longrightarrow>
            registerTool name toolInstance (registerAll regs (newToolManager\<lparr>composioTools := cs\<rparr>))
              = registerAll regs (newToolManager\<lparr>composioTools := cs\<rparr>))
       \<and> (\<exists>decls.
            getToolDeclarations (registerAll regs (newToolManager\<lparr>composioTools := cs\<rparr>))
              = Inr decls
            \<and> decls
                = List.map_filter declared
                    (tools (registerAll regs (newToolManager\<lparr>composioTools := cs\<rparr>))) @ fs
            \<and> (\<forall>nm. length (filter (named nm) decls)
                      = length (filter (declares nm)
                          (tools (registerAll regs (newToolManager\<lparr>composioTools := cs\<rparr>))))
                        + length (filter (named nm) fs)))"
proof -
  let ?start = "newToolManager\<lparr>composioTools := cs\<rparr>"
  let ?m = "registerAll regs ?start"
  have empty: "tools ?start = []"
    by (simp add: newToolManager_def)
  have keys: "fst ` set (tools ?m) = fst ` set regs"
    using keys_registerAll [of regs ?start] by (simp add: empty)
  have a: "map_of (tools ?m) = map_of regs"
    by (simp add: map_of_registerAll empty)
  have b: "map fst (tools ?m) = rev (remdups (rev (map fst regs)))"
    by (rule keys_in_order [OF empty])
  have c: "\<forall>name toolInstance.
             tools (registerAll (regs @ [(name, toolInstance)]) ?start)
               = (if name \<in> set (map fst regs) then tools ?m
                  else tools ?m @ [(name, toolInstance)])"
    using keys by (simp add: registerAll_snoc registerTool_def)
  have d: "\<forall>name toolInstance. name \<in> set (map fst regs) \<longrightarrow>
             registerTool name toolInstance ?m = ?m"
  proof (intro allI impI)
    fix name toolInstance
    assume "name \<in> set (map fst regs)"
    with keys have "name \<in> set (map fst (tools ?m))"
      by simp
    then show "registerTool name toolInstance ?m = ?m"
      by (rule registerTool_present)
  qed
  have "\<not> list_ex accessorThrows (tools ?start)"
    by (simp add: newToolManager_def)
  from accessorThrows_registerAll [OF this assms(1)]
  have "pushLocal (tools ?m) [] = Inr (List.map_filter declared (tools ?m))"
    by (simp add: pushLocal_map_filter)
  moreover have "composioTools ?m = cs"
    by (simp add: composioTools_registerAll)
  ultimately have e: "getToolDeclarations ?m = Inr (List.map_filter declared (tools ?m) @ fs)"
    by (simp add: getToolDeclarations_def pushComposio_from [OF assms(2)])
  have f: "\<forall>nm. length (filter (named nm) (List.map_filter declared (tools ?m) @ fs))
                 = length (filter (declares nm) (tools ?m)) + length (filter (named nm) fs)"
    by (simp add: count_map_filter)
  from e f have g: "\<exists>decls. getToolDeclarations ?m = Inr decls
                      \<and> decls = List.map_filter declared (tools ?m) @ fs
                      \<and> (\<forall>nm. length (filter (named nm) decls)
                                = length (filter (declares nm) (tools ?m))
                                  + length (filter (named nm) fs))"
    by simp
  show ?thesis
    by (intro conjI a b c d g)
qed

text \<open>
  A connector tool \<open>gmail_send\<close>, then registrations of \<open>weather\<close>, \<open>googleSearch\<close>, a second
  \<open>googleSearch\<close> and a tool without accessor: the first \<open>googleSearch\<close> tool is kept, and
  the declarations come in registration order, the connector's last.
\<close>

theorem registerTool_declarations_witness:
  "\<not> list_ex accessorThrows
       [(''weather'',
           \<lparr>getDeclaration = Some (Inr (Obj [(''name'', Str ''weather'')])),
            execute = (\<lambda>a. Inr Null)\<rparr>),
        (''googleSearch'',
           \<lparr>getDeclaration = Some (Inr (Obj [(''name'', Str ''googleSearch'')])),
            execute = (\<lambda>a. Inr Null)\<rparr>),
        (''googleSearch'',
           \<lparr>getDeclaration = Some (Inr (Obj [(''name'', Str ''other'')])),
            execute = (\<lambda>a. Inr Null)\<rparr>),
        (''clock'', \<lparr>getDeclaration = None, execute = (\<lambda>a. Inr Null)\<rparr>)]
   \<and> pushComposio
       [(''gmail'', [Obj [(''type'', Str ''function''),
                          (''function'', Obj [(''name'', Str ''gmail_send'')])]])] []
     = Inr [Obj [(''name'', Str ''gmail_send'')]]
   \<and> map fst (tools (registerAll
       [(''weather'',
           \<lparr>getDeclaration = Some (Inr (Obj [(''name'', Str ''weather'')])),
            execute = (\<lambda>a. Inr Null)\<rparr>),
        (''googleSearch'',
           \<lparr>getDeclaration = Some (Inr (Obj [(''name'', Str ''googleSearch'')])),
            execute = (\<lambda>a. Inr Null)\<rparr>),
        (''googleSearch'',
           \<lparr>getDeclaration = Some (Inr (Obj [(''name'', Str ''other'')])),
            execute = (\<lambda>a. Inr Null)\<rparr>),
        (''clock'', \<lparr>getDeclaration = None, execute = (\<lambda>a. Inr Null)\<rparr>)]
       (newToolManager\<lparr>composioTools :=
          [(''gmail'', [Obj [(''type'', Str ''function''),
                             (''function'', Obj [(''name'', Str ''gmail_send'')])]])]\<rparr>)))
     = [''weather'', ''googleSearch'', ''clock'']
   \<and> getToolDeclarations (registerAll
       [(''weather'',
           \<lparr>getDeclaration = Some (Inr (Obj [(''name'', Str ''weather'')])),
            execute = (\<lambda>a. Inr Null)\<rparr>),
        (''googleSearch'',
           \<lparr>getDeclaration = Some (Inr (Obj [(''name'', Str ''googleSearch'')])),
            execute = (\<lambda>a. Inr Null)\<rparr>),
        (''googleSearch'',
           \<lparr>getDeclaration = Some (Inr (Obj [(''name'', Str ''other'')])),
            execute = (\<lambda>a. Inr Null)\<rparr>),
        (''clock'', \<lparr>getDeclaration = None, execute = (\<lambda>a. Inr Null)\<rparr>)]
       (newToolManager\<lparr>composioTools :=
          [(''gmail'', [Obj [(''type'', Str ''function''),
                             (''function'', Obj [(''name'', Str ''gmail_send'')])]])]\<rparr>))
     = Inr [Obj [(''name'', Str ''weather'')], Obj [(''name'', Str ''googleSearch'')],
            Obj [(''name'', Str ''gmail_send'')]]"
proof -
  let ?regs = "[(''weather'',
                   \<lparr>getDeclaration = Some (Inr (Obj [(''name'', Str ''weather'')])),
                    execute = (\<lambda>a. Inr Null)\<rparr>),
                (''googleSearch'',
                   \<lparr>getDeclaration = Some (Inr (Obj [(''name'', Str ''googleSearch'')])),
                    execute = (\<lambda>a. Inr Null)\<rparr>),
                (''googleSearch'',
                   \<lparr>getDeclaration = Some (Inr (Obj [(''name'', Str ''other'')])),
                    execute = (\<lambda>a. Inr Null)\<rparr>),
                (''clock'', \<lparr>getDeclaration = None, execute = (\<lambda>a. Inr Null)\<rparr>)]"
  let ?cs = "[(''gmail'', [Obj [(''type'', Str ''function''),
                                (''function'', Obj [(''name'', Str ''gmail_send'')])]])]"
  let ?m = "registerAll ?regs (newToolManager\<lparr>composioTools := ?cs\<rparr>)"
  have h: "\<not> list_ex accessorThrows ?regs"
    by (simp add: accessorThrows_def)
  have p: "pushComposio ?cs [] = Inr [Obj [(''name'', Str ''gmail_send'')]]"
    by (simp add: js_own_def)
  have t: "tools ?m
             = [(''weather'',
                   \<lparr>getDeclaration = Some (Inr (Obj [(''name'', Str ''weather'')])),
                    execute = (\<lambda>a. Inr Null)\<rparr>),
                (''googleSearch'',
                   \<lparr>getDeclaration = Some (Inr (Obj [(''name'', Str ''googleSearch'')])),
                    execute = (\<lambda>a. Inr Null)\<rparr>),
                (''clock'', \<lparr>getDeclaration = None, execute = (\<lambda>a. Inr Null)\<rparr>)]"
    by (simp add: registerAll_def registerTool_def newToolManager_def)
  note inst = registerTool_declarations [OF h p]
  from inst have k: "map fst (tools ?m) = [''weather'', ''googleSearch'', ''clock'']"
    by simp
  from inst have "getToolDeclarations ?m
                   = Inr (List.map_filter declared (tools ?m)
                          @ [Obj [(''name'', Str ''gmail_send'')]])"
    by blast
  then have g: "getToolDeclarations ?m
                  = Inr [Obj [(''name'', Str ''weather'')], Obj [(''name'', Str ''googleSearch'')],
                         Obj [(''name'', Str ''gmail_send'')]]"
    by (simp add: t declared_def)
  show ?thesis
    by (intro conjI h p k g)
qed

text \<open>
  Where C4 as stated fails: two tools registered under different names that both declare
  the name \<open>search\<close> give two entries of that name.
\<close>

theorem registerTool_declarations_counterexample:
  "tools (registerAll
       [(''a'', \<lparr>getDeclaration = Some (Inr (Obj [(''name'', Str ''search'')])),
                 execute = (\<lambda>a. Inr Null)\<rparr>),
        (''b'', \<lparr>getDeclaration = Some (Inr (Obj [(''name'', Str ''search'')])),
                 execute = (\<lambda>a. Inr Null)\<rparr>)]
       newToolManager)
     = [(''a'', \<lparr>getDeclaration = Some (Inr (Obj [(''name'', Str ''search'')])),
                 execute = (\<lambda>a. Inr Null)\<rparr>),
        (''b'', \<lparr>getDeclaration = Some (Inr (Obj [(''name'', Str ''search'')])),
                 execute = (\<lambda>a. Inr Null)\<rparr>)]
   \<and> getToolDeclarations
       (registerAll
          [(''a'', \<lparr>getDeclaration = Some (Inr (Obj [(''name'', Str ''search'')])),
                    execute = (\<lambda>a. Inr Null)\<rparr>),
           (''b'', \<lparr>getDeclaration = Some (Inr (Obj [(''name'', Str ''search'')])),
                    execute = (\<lambda>a. Inr Null)\<rparr>)]
          newToolManager)
     = Inr [Obj [(''name'', Str ''search'')], Obj [(''name'', Str ''search'')]]
   \<and> length (filter (named ''search'')
               [Obj [(''name'', Str ''search'')], Obj [(''name'', Str ''search'')]]) = 2"
  by (simp add: registerAll_def registerTool_def newToolManager_def getToolDeclarations_def
      named_def js_own_def)

section \<open>An app that is not connected\<close>

lemma initialize_fields [simp]:
  "toolCache (initialize b s) = toolCache s"
  "backendCalls (initialize b s) = backendCalls s"
  by (simp_all add: initialize_def)

lemma cached_initialize [simp]: "cached (initialize b s) k = cached s k"
  by (simp add: cached_def)

text \<open>
  C6. For an app that is not connected \<open>getTools\<close> throws the error constructed for that
  case, rethrown unchanged by the \<open>catch\<close> block, whatever the cache holds: the cache is
  not consulted, the backend is not called and nothing is stored.
\<close>

theorem getTools_not_connected:
  assumes "\<not> isConnected appName"
  shows "fst (getTools isConnected fetchTools integrationReady appName actions tags s)
           = Inl (Err ''Error'' (''Not connected to '' @ appName @ ''. Please connect first.''))
       \<and> toolCache (snd (getTools isConnected fetchTools integrationReady appName actions tags s))
           = toolCache s
       \<and> backendCalls (snd (getTools isConnected fetchTools integrationReady appName actions tags s))
           = backendCalls s"
  using assms by (simp add: getTools_def Let_def)

theorem getTools_not_connected_witness:
  "\<not> (''slack'' = ''gmail'')
   \<and> fst (getTools (\<lambda>a. a = ''gmail'') (\<lambda>n a acts tgs. Inr (Arr [])) True ''slack'' [] []
          \<lparr>initialized = True, toolCache = [''slack__'' \<mapsto> Arr [Str ''cached'']],
           backendCalls = []\<rparr>)
     = Inl (Err ''Error'' ''Not connected to slack. Please connect first.'')
   \<and> backendCalls
       (snd (getTools (\<lambda>a. a = ''gmail'') (\<lambda>n a acts tgs. Inr (Arr [])) True ''slack'' [] []
          \<lparr>initialized = True, toolCache = [''slack__'' \<mapsto> Arr [Str ''cached'']],
           backendCalls = []\<rparr>))
     = []"
proof -
  have a: "\<not> (\<lambda>a. a = ''gmail'') ''slack''"
    by simp
  from getTools_not_connected
         [where isConnected = "\<lambda>a. a = ''gmail''" and appName = "''slack''"
            and fetchTools = "\<lambda>n a acts tgs. Inr (Arr [])" and integrationReady = True
            and actions = "[]" and tags = "[]"
            and s = "\<lparr>initialized = True, toolCache = [''slack__'' \<mapsto> Arr [Str ''cached'']],
                     backendCalls = []\<rparr>", OF a]
  show ?thesis by simp
qed

section \<open>The tool cache\<close>













section \<open>The batched reply\<close>

lemma mcp_handleToolCall_settles:
  assumes "settles JSON_parse ts c"
  shows "\<exists>entry. mcp_handleToolCall JSON_parse ts c = Inr entry
           \<and> js_get entry ''toolCallId'' = Inr (tc_id c)
           \<and> js_get entry ''name'' = Inr (Str (tc_name c))
           \<and> js_get entry ''status''
               = Inr (Str (if succeeds JSON_parse ts c then ''success'' else ''error''))"
proof (cases "ts (tc_name c)")
  case None
  then show ?thesis
    by (simp add: mcp_handleToolCall_def Let_def succeeds_def js_own_def)
next
  case (Some tool)
  show ?thesis
  proof (cases "tryHandler JSON_parse tool (tc_arguments c)")
    case (Inr result)
    with Some show ?thesis
      by (simp add: mcp_handleToolCall_def Let_def succeeds_def js_own_def)
  next
    case (Inl error)
    with assms Some obtain shown where "errorText error = Inr shown"
      by (auto simp: settles_def reportable_def split: sum.splits)
    with Some Inl show ?thesis
      by (simp add: mcp_handleToolCall_def Let_def succeeds_def js_own_def)
  qed
qed

lemma promiseAll_settled:
  assumes "\<forall>c\<in>set calls. \<exists>entry. f c = Inr entry \<and> P c entry"
  shows "\<exists>results. promiseAll (map f calls) = Some results \<and> length results = length calls
           \<and> (\<forall>i<length calls. f (calls ! i) = Inr (results ! i) \<and> P (calls ! i) (results ! i))"
  using assms
proof (induction calls)
  case Nil
  show ?case by simp
next
  case (Cons c calls)
  from Cons.prems obtain entry where e: "f c = Inr entry" "P c entry"
    by auto
  from Cons.prems have "\<forall>c\<in>set calls. \<exists>entry. f c = Inr entry \<and> P c entry"
    by simp
  from Cons.IH [OF this] obtain results where r:
    "promiseAll (map f calls) = Some results" "length results = length calls"
    "\<forall>i<length calls. f (calls ! i) = Inr (results ! i) \<and> P (calls ! i) (results ! i)"
    by blast
  have "\<forall>i<length (c # calls).
          f ((c # calls) ! i) = Inr ((entry # results) ! i)
          \<and> P ((c # calls) ! i) ((entry # results) ! i)"
  proof (intro allI impI)
    fix i
    assume "i < length (c # calls)"
    then show "f ((c # calls) ! i) = Inr ((entry # results) ! i)
               \<and> P ((c # calls) ! i) ((entry # results) ! i)"
      using e r(3) by (cases i) simp_all
  qed
  with e r(1,2) show ?case
    by (intro exI [of _ "entry # results"]) simp
qed

text \<open>
  C8, as the code has it. For a batched tool-call message with \<open>n\<close> calls, each of which
  ends in a result entry (no handler throws \<open>undefined\<close>, \<open>null\<close> or another value whose
  text the \<open>catch\<close> block cannot take), the listener sends exactly one message, of type
  \<open>tool_results\<close>, with exactly \<open>n\<close> entries in the order of the calls. Entry \<open>i\<close> is what
  \<open>handleToolCall\<close> returns for call \<open>i\<close> and echoes its id; its status is \<open>success\<close> when
  the tool is registered, the arguments decode and the handler returns, and \<open>error\<close>
  otherwise (tool not found, arguments that are not valid JSON, handler throws).
\<close>

theorem batch_reply:
  assumes "\<forall>c\<in>set calls. settles JSON_parse ts c"
  shows "\<exists>results.
           messageListener JSON_parse ts (Some calls)
             = [Obj [(''type'', Str ''tool_results''), (''results'', Arr results)]]
           \<and> length results = length calls
           \<and> (\<forall>i<length calls.
                 mcp_handleToolCall JSON_parse ts (calls ! i) = Inr (results ! i)
                 \<and> js_get (results ! i) ''toolCallId'' = Inr (tc_id (calls ! i))
                 \<and> js_get (results ! i) ''status''
                     = Inr (Str (if succeeds JSON_parse ts (calls ! i)
                                 then ''success'' else ''error'')))"
proof -
  let ?P = "\<lambda>c entry. js_get entry ''toolCallId'' = Inr (tc_id c)
              \<and> js_get entry ''status''
                  = Inr (Str (if succeeds JSON_parse ts c then ''success'' else ''error''))"
  have "\<forall>c\<in>set calls. \<exists>entry. mcp_handleToolCall JSON_parse ts c = Inr entry \<and> ?P c entry"
    using assms mcp_handleToolCall_settles by blast
  from promiseAll_settled [where P = ?P, OF this]
  obtain results where r:
    "promiseAll (map (mcp_handleToolCall JSON_parse ts) calls) = Some results"
    "length results = length calls"
    "\<forall>i<length calls. mcp_handleToolCall JSON_parse ts (calls ! i) = Inr (results ! i)
        \<and> ?P (calls ! i) (results ! i)"
    by blast
  from r(1) have "messageListener JSON_parse ts (Some calls)
                    = [Obj [(''type'', Str ''tool_results''), (''results'', Arr results)]]"
    by (simp add: messageListener_def)
  with r(2,3) show ?thesis by blast
qed


text \<open>
  Three calls, the second to a handler that throws an \<open>Error\<close>: one reply with three
  entries, \<open>success\<close>, \<open>error\<close>, \<open>success\<close>.
\<close>

theorem batch_reply_witness:
  "messageListener (\<lambda>s. if s = ''{}'' then Inr (Obj []) else Inl ''Unexpected end of JSON input'')
     (mcp_registerTool ''apply_video_style'' (Str ''Apply a style'')
        (\<lambda>a. Inl (Err ''Error'' ''Video style transfer is not yet implemented'')) (Obj [])
        (mcp_registerTool ''generate_video'' (Str ''Generate a video'')
           (\<lambda>a. Inr (Obj [(''videoUrl'', Str ''v.mp4'')])) (Obj []) Map.empty))
     (Some [\<lparr>tc_name = ''generate_video'', tc_id = Str ''1'', tc_arguments = Obj []\<rparr>,
            \<lparr>tc_name = ''apply_video_style'', tc_id = Str ''2'', tc_arguments = Str ''{}''\<rparr>,
            \<lparr>tc_name = ''generate_video'', tc_id = Str ''3'', tc_arguments = Str ''{}''\<rparr>])
   = [Obj [(''type'', Str ''tool_results''),
           (''results'',
            Arr [Obj [(''toolCallId'', Str ''1''), (''name'', Str ''generate_video''),
                      (''status'', Str ''success''),
                      (''result'', Obj [(''videoUrl'', Str ''v.mp4'')])],
                 Obj [(''toolCallId'', Str ''2''), (''name'', Str ''apply_video_style''),
                      (''status'', Str ''error''),
                      (''error'', Str ''Video style transfer is not yet implemented'')],
                 Obj [(''toolCallId'', Str ''3''), (''name'', Str ''generate_video''),
                      (''status'', Str ''success''),
                      (''result'', Obj [(''videoUrl'', Str ''v.mp4'')])]])]]"
proof -
  let ?parse = "\<lambda>s. if s = ''{}'' then Inr (Obj []) else Inl ''Unexpected end of JSON input''"
  let ?ts = "mcp_registerTool ''apply_video_style'' (Str ''Apply a style'')
               (\<lambda>a. Inl (Err ''Error'' ''Video style transfer is not yet implemented'')) (Obj [])
               (mcp_registerTool ''generate_video'' (Str ''Generate a video'')
                  (\<lambda>a. Inr (Obj [(''videoUrl'', Str ''v.mp4'')])) (Obj []) Map.empty)"
  let ?calls = "[\<lparr>tc_name = ''generate_video'', tc_id = Str ''1'', tc_arguments = Obj []\<rparr>,
                 \<lparr>tc_name = ''apply_video_style'', tc_id = Str ''2'', tc_arguments = Str ''{}''\<rparr>,
                 \<lparr>tc_name = ''generate_video'', tc_id = Str ''3'', tc_arguments = Str ''{}''\<rparr>]"
  have h: "\<forall>c\<in>set ?calls. settles ?parse ?ts c"
    by (simp add: settles_def mcp_registerTool_def tryHandler_def reportable_def errorText_def)
  from batch_reply [OF h] show ?thesis
    by (simp add: messageListener_def mcp_handleToolCall_def Let_def mcp_registerTool_def
        tryHandler_def errorText_def)
qed

text \<open>
  Where C8 as stated fails. A call to a tool that is not registered contributes an
  \<open>error\<close> entry although no handler threw; and when a handler rejects with \<open>undefined\<close>
  the \<open>catch\<close> block throws on \<open>error.message\<close>, \<open>Promise.all\<close> rejects and no reply is
  sent at all.
\<close>

theorem batch_reply_counterexample:
  "messageListener (\<lambda>s. if s = ''{}'' then Inr (Obj []) else Inl ''Unexpected end of JSON input'')
     (mcp_registerTool ''generate_video'' (Str ''Generate a video'')
        (\<lambda>a. Inr (Obj [(''videoUrl'', Str ''v.mp4'')])) (Obj []) Map.empty)
     (Some [\<lparr>tc_name = ''share_video'', tc_id = Str ''1'', tc_arguments = Obj []\<rparr>])
   = [Obj [(''type'', Str ''tool_results''),
           (''results'',
            Arr [Obj [(''toolCallId'', Str ''1''), (''name'', Str ''share_video''),
                      (''status'', Str ''error''),
                      (''error'', Str ''Tool not found: share_video'')]])]]
   \<and> messageListener
       (\<lambda>s. if s = ''{}'' then Inr (Obj []) else Inl ''Unexpected end of JSON input'')
       (mcp_registerTool ''wait'' (Str ''Wait for a timer'') (\<lambda>a. Inl Undefined) (Obj [])
          (mcp_registerTool ''generate_video'' (Str ''Generate a video'')
             (\<lambda>a. Inr (Obj [(''videoUrl'', Str ''v.mp4'')])) (Obj []) Map.empty))
       (Some [\<lparr>tc_name = ''generate_video'', tc_id = Str ''1'', tc_arguments = Obj []\<rparr>,
              \<lparr>tc_name = ''wait'', tc_id = Str ''2'', tc_arguments = Obj []\<rparr>])
     = []"
  by (simp add: messageListener_def mcp_handleToolCall_def Let_def mcp_registerTool_def
      tryHandler_def errorText_def)

section \<open>Arguments that are not valid JSON\<close>

lemma settles_invalid_json:
  assumes "ts (tc_name c) = Some tool" and "tc_arguments c = Str encoded"
    and "JSON_parse encoded = Inl message"
  shows "settles JSON_parse ts c"
  using assms by (simp add: settles_def tryHandler_def reportable_def errorText_def)

text \<open>
  C10. For a call whose handler is registered and whose arguments are a string that
  \<open>JSON.parse\<close> rejects, \<open>handleToolCall\<close> returns an entry with status \<open>error\<close> carrying the
  message of the \<open>SyntaxError\<close> (its name, should the message be empty) and does not
  throw. So in any batch whose other calls end in result entries, the reply is sent with
  one entry per call, this one at the position of the call.
\<close>

theorem invalid_json_arguments:
  assumes "ts (tc_name c) = Some tool" and "tc_arguments c = Str encoded"
    and "JSON_parse encoded = Inl message"
  shows "mcp_handleToolCall JSON_parse ts c
           = Inr (Obj [(''toolCallId'', tc_id c), (''name'', Str (tc_name c)),
                       (''status'', Str ''error''),
                       (''error'', Str (if message = [] then ''SyntaxError'' else message))])
       \<and> (\<forall>pre post. list_all (settles JSON_parse ts) (pre @ post) \<longrightarrow>
            (\<exists>results.
               messageListener JSON_parse ts (Some (pre @ c # post))
                 = [Obj [(''type'', Str ''tool_results''), (''results'', Arr results)]]
               \<and> length results = length pre + 1 + length post
               \<and> results ! length pre
                   = Obj [(''toolCallId'', tc_id c), (''name'', Str (tc_name c)),
                          (''status'', Str ''error''),
                          (''error'', Str (if message = [] then ''SyntaxError'' else message))]))"
proof -
  let ?entry = "Obj [(''toolCallId'', tc_id c), (''name'', Str (tc_name c)),
                     (''status'', Str ''error''),
                     (''error'', Str (if message = [] then ''SyntaxError'' else message))]"
  have one: "mcp_handleToolCall JSON_parse ts c = Inr ?entry"
    using assms by (simp add: mcp_handleToolCall_def Let_def tryHandler_def errorText_def)
  have batch: "\<exists>results.
                 messageListener JSON_parse ts (Some (pre @ c # post))
                   = [Obj [(''type'', Str ''tool_results''), (''results'', Arr results)]]
                 \<and> length results = length pre + 1 + length post
                 \<and> results ! length pre = ?entry"
    if others: "list_all (settles JSON_parse ts) (pre @ post)" for pre post
  proof -
    from others settles_invalid_json [where ts = ts and JSON_parse = JSON_parse, OF assms]
    have "\<forall>x\<in>set (pre @ c # post). settles JSON_parse ts x"
      by (auto simp: list_all_iff)
    then have "\<forall>x\<in>set (pre @ c # post).
                 \<exists>entry. mcp_handleToolCall JSON_parse ts x = Inr entry \<and> True"
      using mcp_handleToolCall_settles by blast
    from promiseAll_settled [OF this] obtain results where r:
      "promiseAll (map (mcp_handleToolCall JSON_parse ts) (pre @ c # post)) = Some results"
      "length results = length (pre @ c # post)"
      "\<forall>i<length (pre @ c # post).
          mcp_handleToolCall JSON_parse ts ((pre @ c # post) ! i) = Inr (results ! i) \<and> True"
      by blast
    have "length pre < length (pre @ c # post)"
      by simp
    with r(3) have "mcp_handleToolCall JSON_parse ts ((pre @ c # post) ! length pre)
                      = Inr (results ! length pre)"
      by blast
    with one have "results ! length pre = ?entry"
      by simp
    moreover from r(1) have "messageListener JSON_parse ts (Some (pre @ c # post))
                      = [Obj [(''type'', Str ''tool_results''), (''results'', Arr results)]]"
      by (simp add: messageListener_def)
    ultimately show ?thesis using r(2) by auto
  qed
  from one batch show ?thesis by blast
qed

text \<open>
  A call with arguments \<open>"{"\<close> after a well-formed one: both entries are in the reply.
\<close>

theorem invalid_json_arguments_witness:
  "mcp_handleToolCall
     (\<lambda>s. if s = ''{}'' then Inr (Obj []) else Inl ''Unexpected end of JSON input'')
     (mcp_registerTool ''generate_video'' (Str ''Generate a video'')
        (\<lambda>a. Inr (Obj [(''videoUrl'', Str ''v.mp4'')])) (Obj []) Map.empty)
     \<lparr>tc_name = ''generate_video'', tc_id = Str ''7'', tc_arguments = Str ''{''\<rparr>
   = Inr (Obj [(''toolCallId'', Str ''7''), (''name'', Str ''generate_video''),
               (''status'', Str ''error''), (''error'', Str ''Unexpected end of JSON input'')])
   \<and> list_all
       (settles (\<lambda>s. if s = ''{}'' then Inr (Obj []) else Inl ''Unexpected end of JSON input'')
          (mcp_registerTool ''generate_video'' (Str ''Generate a video'')
             (\<lambda>a. Inr (Obj [(''videoUrl'', Str ''v.mp4'')])) (Obj []) Map.empty))
       ([\<lparr>tc_name = ''generate_video'', tc_id = Str ''6'', tc_arguments = Str ''{}''\<rparr>] @ [])
   \<and> messageListener
       (\<lambda>s. if s = ''{}'' then Inr (Obj []) else Inl ''Unexpected end of JSON input'')
       (mcp_registerTool ''generate_video'' (Str ''Generate a video'')
          (\<lambda>a. Inr (Obj [(''videoUrl'', Str ''v.mp4'')])) (Obj []) Map.empty)
       (Some [\<lparr>tc_name = ''generate_video'', tc_id = Str ''6'', tc_arguments = Str ''{}''\<rparr>,
              \<lparr>tc_name = ''generate_video'', tc_id = Str ''7'', tc_arguments = Str ''{''\<rparr>])
     = [Obj [(''type'', Str ''tool_results''),
             (''results'',
              Arr [Obj [(''toolCallId'', Str ''6''), (''name'', Str ''generate_video''),
                        (''status'', Str ''success''),
                        (''result'', Obj [(''videoUrl'', Str ''v.mp4'')])],
                   Obj [(''toolCallId'', Str ''7''), (''name'', Str ''generate_video''),
                        (''status'', Str ''error''),
                        (''error'', Str ''Unexpected end of JSON input'')]])]]"
proof -
  let ?parse = "\<lambda>s. if s = ''{}'' then Inr (Obj []) else Inl ''Unexpected end of JSON input''"
  let ?ts = "mcp_registerTool ''generate_video'' (Str ''Generate a video'')
               (\<lambda>a. Inr (Obj [(''videoUrl'', Str ''v.mp4'')])) (Obj []) Map.empty"
  let ?c = "\<lparr>tc_name = ''generate_video'', tc_id = Str ''7'', tc_arguments = Str ''{''\<rparr>"
  have a: "?ts (tc_name ?c)
             = Some \<lparr>description = Str ''Generate a video'',
                     handler = (\<lambda>a. Inr (Obj [(''videoUrl'', Str ''v.mp4'')])),
                     schema = Obj []\<rparr>"
    by (simp add: mcp_registerTool_def)
  have b: "tc_arguments ?c = Str ''{''"
    by simp
  have c: "?parse ''{'' = (Inl ''Unexpected end of JSON input'' :: string + jsval)"
    by simp
  note t = invalid_json_arguments
         [where JSON_parse = ?parse and ts = ?ts and c = ?c and encoded = "''{''"
            and message = "''Unexpected end of JSON input''", OF a b c]
  have one: "mcp_handleToolCall ?parse ?ts ?c
               = Inr (Obj [(''toolCallId'', Str ''7''), (''name'', Str ''generate_video''),
                           (''status'', Str ''error''),
                           (''error'', Str ''Unexpected end of JSON input'')])"
    using t by simp
  have others: "list_all (settles ?parse ?ts)
                  ([\<lparr>tc_name = ''generate_video'', tc_id = Str ''6'',
                     tc_arguments = Str ''{}''\<rparr>] @ [])"
    by (simp add: settles_def mcp_registerTool_def tryHandler_def)
  have batch: "messageListener ?parse ?ts
                 (Some [\<lparr>tc_name = ''generate_video'', tc_id = Str ''6'',
                          tc_arguments = Str ''{}''\<rparr>, ?c])
               = [Obj [(''type'', Str ''tool_results''),
                       (''results'',
                        Arr [Obj [(''toolCallId'', Str ''6''), (''name'', Str ''generate_video''),
                                  (''status'', Str ''success''),
                                  (''result'', Obj [(''videoUrl'', Str ''v.mp4'')])],
                             Obj [(''toolCallId'', Str ''7''), (''name'', Str ''generate_video''),
                                  (''status'', Str ''error''),
                                  (''error'', Str ''Unexpected end of JSON input'')]])]]"
    by (simp add: messageListener_def one)
       (simp add: mcp_handleToolCall_def Let_def mcp_registerTool_def tryHandler_def)
  show ?thesis
    by (intro conjI one others batch)
qed

section \<open>Retrieval options\<close>

lemma js_own_append:
  "js_own (xs @ ys) k = (if k \<in> set (map fst ys) then js_own ys k else js_own xs k)"
proof (cases "map_of (rev ys) k")
  case None
  then have "k \<notin> set (map fst ys)"
    by (simp add: map_of_eq_None_iff)
  with None show ?thesis
    by (simp add: js_own_def map_add_def)
next
  case (Some v)
  then have "k \<in> set (map fst ys)"
    by (metis map_of_eq_None_iff option.distinct(1) set_map set_rev)
  with Some show ?thesis
    by (simp add: js_own_def map_add_def)
qed

lemma js_own_absent:
  assumes "k \<notin> set (map fst ps)"
  shows "js_own ps k = Undefined"
proof -
  from assms have "map_of (rev ps) k = None"
    by (simp add: map_of_eq_None_iff)
  then show ?thesis
    by (simp add: js_own_def)
qed

lemma js_own_four:
  "js_own [(a, x), (b, y), (c, z), (d, w)] k
     = (if k = d then w else if k = c then z else if k = b then y else if k = a then x
        else Undefined)"
  by (simp add: js_own_def)

lemma retrievalOptions_merged:
  "js_own (retrievalOptions ps) k = mergedUnder defaultOptions ps k"
proof (cases "k \<in> set (map fst ps)")
  case True
  then have "js_own (retrievalOptions ps) k = js_own ps k"
    by (simp only: retrievalOptions_def js_own_append if_True)
  with True show ?thesis
    by (simp add: mergedUnder_def)
next
  case False
  then have u: "js_own ps k = Undefined"
    by (rule js_own_absent)
  from False have "js_own (retrievalOptions ps) k
      = js_own [(''limit'', js_or (js_own ps ''limit'') (Num 10)),
                (''offset'', js_or (js_own ps ''offset'') (Num 0)),
                (''sortBy'', js_or (js_own ps ''sortBy'') (Str ''timestamp'')),
                (''sortDirection'', js_or (js_own ps ''sortDirection'') (Str ''desc''))] k"
    by (simp only: retrievalOptions_def js_own_append if_False)
  also have "\<dots> = js_own defaultOptions k"
  proof -
    have f: "js_or (js_own ps key) v = v" if "k = key" for key v
      using u that by (simp add: js_or_def)
    show ?thesis
      by (simp only: defaultOptions_def js_own_four) (simp add: f)
  qed
  finally show ?thesis
    using False by (simp add: mergedUnder_def)
qed

text \<open>
  C9. \<open>retrieveMemories\<close> passes to the adapter a \<open>retrieve\<close> message whose options are
  the defaults \<open>{limit: 10, offset: 0, sortBy: "timestamp", sortDirection: "desc"}\<close>
  merged under the caller's options: every key the caller supplies has the caller's
  value, every other key its default. With no options all four defaults apply, and with
  \<open>{limit: 5}\<close> only \<open>limit\<close> changes.
\<close>

theorem retrieveMemories_options:
  "retrieveMemories sendMessage query options
     = sendMessage
         (Obj [(''type'', Str ''memory''), (''action'', Str ''retrieve''), (''query'', query),
               (''options'',
                Obj (retrievalOptions (case options of None \<Rightarrow> [] | Some ps \<Rightarrow> ps)))])
   \<and> (\<forall>k. js_own (retrievalOptions (case options of None \<Rightarrow> [] | Some ps \<Rightarrow> ps)) k
          = mergedUnder defaultOptions (case options of None \<Rightarrow> [] | Some ps \<Rightarrow> ps) k)
   \<and> retrievalOptions [] = defaultOptions
   \<and> js_own (retrievalOptions [(''limit'', Num 5)]) ''limit'' = Num 5
   \<and> js_own (retrievalOptions [(''limit'', Num 5)]) ''offset'' = Num 0
   \<and> js_own (retrievalOptions [(''limit'', Num 5)]) ''sortBy'' = Str ''timestamp''
   \<and> js_own (retrievalOptions [(''limit'', Num 5)]) ''sortDirection'' = Str ''desc''"
proof -
  have a: "retrievalOptions [] = defaultOptions"
    by (simp add: retrievalOptions_def defaultOptions_def js_own_def js_or_def)
  have b: "js_own (retrievalOptions [(''limit'', Num 5)]) ''limit'' = Num 5"
    "js_own (retrievalOptions [(''limit'', Num 5)]) ''offset'' = Num 0"
    "js_own (retrievalOptions [(''limit'', Num 5)]) ''sortBy'' = Str ''timestamp''"
    "js_own (retrievalOptions [(''limit'', Num 5)]) ''sortDirection'' = Str ''desc''"
    by (simp_all add: retrievalOptions_def js_own_def js_or_def)
  have c: "\<forall>k. js_own (retrievalOptions (case options of None \<Rightarrow> [] | Some ps \<Rightarrow> ps)) k
               = mergedUnder defaultOptions (case options of None \<Rightarrow> [] | Some ps \<Rightarrow> ps) k"
    by (simp add: retrievalOptions_merged)
  have d: "retrieveMemories sendMessage query options
             = sendMessage
                 (Obj [(''type'', Str ''memory''), (''action'', Str ''retrieve''),
                       (''query'', query),
                       (''options'',
                        Obj (retrievalOptions (case options of None \<Rightarrow> [] | Some ps \<Rightarrow> ps)))])"
    by (simp add: retrieveMemories_def)
  show ?thesis
    by (intro conjI d c a b)
qed

text \<open>
  A caller that supplies \<open>limit: 0\<close> and a key of its own: both are sent as supplied, the
  other defaults stay.
\<close>

theorem retrieveMemories_options_witness:
  "retrieveMemories (\<lambda>m. Inr m) (Obj [(''memoryType'', Str ''preference'')])
     (Some [(''limit'', Num 0), (''tag'', Str ''x'')])
     = Inr (Obj [(''type'', Str ''memory''), (''action'', Str ''retrieve''),
                 (''query'', Obj [(''memoryType'', Str ''preference'')]),
                 (''options'', Obj (retrievalOptions [(''limit'', Num 0), (''tag'', Str ''x'')]))])
   \<and> js_own (retrievalOptions [(''limit'', Num 0), (''tag'', Str ''x'')]) ''limit'' = Num 0
   \<and> js_own (retrievalOptions [(''limit'', Num 0), (''tag'', Str ''x'')]) ''offset'' = Num 0
   \<and> js_own (retrievalOptions [(''limit'', Num 0), (''tag'', Str ''x'')]) ''sortBy''
       = Str ''timestamp''
   \<and> js_own (retrievalOptions [(''limit'', Num 0), (''tag'', Str ''x'')]) ''tag'' = Str ''x''"
proof -
  note t = retrieveMemories_options
             [of "\<lambda>m. Inr m" "Obj [(''memoryType'', Str ''preference'')]"
                 "Some [(''limit'', Num 0), (''tag'', Str ''x'')]"]
  have c: "js_own (retrievalOptions [(''limit'', Num 0), (''tag'', Str ''x'')]) k
             = mergedUnder defaultOptions [(''limit'', Num 0), (''tag'', Str ''x'')] k" for k
    using t by simp
  have d: "retrieveMemories (\<lambda>m. Inr m) (Obj [(''memoryType'', Str ''preference'')])
             (Some [(''limit'', Num 0), (''tag'', Str ''x'')])
           = Inr (Obj [(''type'', Str ''memory''), (''action'', Str ''retrieve''),
                       (''query'', Obj [(''memoryType'', Str ''preference'')]),
                       (''options'',
                        Obj (retrievalOptions [(''limit'', Num 0), (''tag'', Str ''x'')]))])"
    using t by simp
  show ?thesis
    by (simp only: c d) (simp add: mergedUnder_def defaultOptions_def js_own_def)
qed

end
